theory Spec2Isabelle
  imports Complex_Main "HOL-Library.Multiset"
begin

section \<open>Python text\<close>

text \<open>
  A Python \<open>str\<close> is a sequence of Unicode code points, and \<open>len\<close> counts code points.
  It is modelled as a list of integers (what \<open>ord\<close> returns); \<open>u\<close> turns an ASCII literal into such a list.
\<close>

type_synonym ustr = "int list"

definition u :: "string \<Rightarrow> ustr" where
  "u s = map of_char s"

datatype py_error = ValueError | KeyError | TypeError | AttributeError

text \<open>The code points for which \<open>str.isspace\<close> holds; \<open>str.split()\<close>, \<open>str.strip()\<close> and the
  regular-expression class \<open>\s\<close> all use this set.\<close>

definition is_space :: "int \<Rightarrow> bool" where
  "is_space c \<longleftrightarrow>
     (9 \<le> c \<and> c \<le> 13) \<or> (28 \<le> c \<and> c \<le> 32) \<or> c = 133 \<or> c = 160 \<or> c = 5760 \<or>
     (8192 \<le> c \<and> c \<le> 8202) \<or> c = 8232 \<or> c = 8233 \<or> c = 8239 \<or> c = 8287 \<or> c = 12288"

text \<open>\<open>s.split()\<close>: the maximal runs of characters that are not white space.\<close>

fun words_acc :: "ustr \<Rightarrow> ustr \<Rightarrow> ustr list" where
  "words_acc cur [] = (if cur = [] then [] else [cur])"
| "words_acc cur (c # cs) =
     (if is_space c then (if cur = [] then words_acc [] cs else cur # words_acc [] cs)
      else words_acc (cur @ [c]) cs)"

definition split_ws :: "ustr \<Rightarrow> ustr list" where
  "split_ws s = words_acc [] s"

text \<open>\<open>sep.join(xs)\<close>.\<close>

fun join :: "ustr \<Rightarrow> ustr list \<Rightarrow> ustr" where
  "join sep [] = []"
| "join sep [x] = x"
| "join sep (x # y # ys) = x @ sep @ join sep (y # ys)"

text \<open>\<open>s.strip()\<close>.\<close>

definition strip :: "ustr \<Rightarrow> ustr" where
  "strip s = rev (dropWhile is_space (rev (dropWhile is_space s)))"

text \<open>\<open>k in s\<close> for two strings: \<open>k\<close> occurs in \<open>s\<close> as a contiguous run.\<close>

fun str_in :: "ustr \<Rightarrow> ustr \<Rightarrow> bool" where
  "str_in k [] = (k = [])"
| "str_in k (c # cs) = (take (length k) (c # cs) = k \<or> str_in k cs)"

section \<open>pdf_utils.py: chunk_text\<close>

text \<open>
  \<open>text[a:b]\<close> for \<open>0 \<le> a\<close> and \<open>0 \<le> b\<close>, the only slices the loop takes (\<open>start\<close> is
  \<open>0\<close> or \<open>max(0, \<dots>)\<close>, \<open>end\<close> is a minimum of two non-negative numbers).
\<close>

definition py_slice :: "'a list \<Rightarrow> int \<Rightarrow> int \<Rightarrow> 'a list" where
  "py_slice xs a b = take (nat b - nat a) (drop (nat a) xs)"

text \<open>
  The \<open>while start < len(text)\<close> loop. It need not terminate, so it is a partial function
  into \<open>option\<close>: \<open>None\<close> is the run that never leaves the loop.
\<close>

partial_function (option) chunk_loop ::
  "ustr \<Rightarrow> int \<Rightarrow> int \<Rightarrow> int \<Rightarrow> ustr list \<Rightarrow> ustr list option" where
  "chunk_loop text chunk_size overlap start chunks =
     (if start < int (length text) then
        (let stop = min (int (length text)) (start + chunk_size);
             chunks' = chunks @ [py_slice text start stop]
         in if stop = int (length text) then Some chunks'
            else chunk_loop text chunk_size overlap (max 0 (stop - overlap)) chunks')
      else Some chunks)"

declare chunk_loop.simps [code]

text \<open>\<open>chunk_text\<close>: \<open>Some (Inl e)\<close> is a raised exception, \<open>Some (Inr cs)\<close> the returned list,
  \<open>None\<close> a call that does not return.\<close>

definition chunk_text :: "ustr \<Rightarrow> int \<Rightarrow> int \<Rightarrow> (py_error + ustr list) option" where
  "chunk_text text chunk_size overlap =
     (if chunk_size \<le> 0 then Some (Inl ValueError)
      else if overlap < 0 then Some (Inl ValueError)
      else (let t = join (u '' '') (split_ws text)
            in if t = [] then Some (Inr [])
               else map_option Inr (chunk_loop t chunk_size overlap 0 [])))"


section \<open>rag.py: the passage index\<close>

text \<open>
  \<open>FaissIndex\<close> owns a flat inner-product index of the \<open>faiss\<close> library and the list of
  passages. The flat index is the list of the vectors added so far; a vector is a row of
  the index's dimensionality, of an unspecified type \<open>'v\<close>.
\<close>

record 'v FaissIndex =
  dim :: nat
  index_vectors :: "'v list"
  passages :: "ustr list"

definition new_index :: "nat \<Rightarrow> 'v FaissIndex" where
  "new_index d = \<lparr>dim = d, index_vectors = [], passages = []\<rparr>"

definition size_of :: "'v FaissIndex \<Rightarrow> nat" where
  "size_of s = length (passages s)"

text \<open>\<open>add\<close> returns the outcome (\<open>Inl\<close> the exception raised) and the state it leaves behind.\<close>

definition add :: "'v FaissIndex \<Rightarrow> 'v list \<Rightarrow> ustr list \<Rightarrow> (py_error + unit) \<times> 'v FaissIndex" where
  "add s vecs ps =
     (if length ps \<noteq> length vecs then (Inl ValueError, s)
      else (let s1 = s\<lparr>index_vectors := index_vectors s @ vecs\<rparr>;
                s2 = s1\<lparr>passages := passages s1 @ ps\<rparr>
            in (Inr (), s2)))"

text \<open>
  \<open>search\<close>: the library's own search \<open>isearch\<close> is a parameter; it returns the (score, index)
  pairs of the first query row. The loop drops the indices out of range.
\<close>

definition search ::
  "('v list \<Rightarrow> 'q \<Rightarrow> int \<Rightarrow> ('s \<times> int) list) \<Rightarrow> 'v FaissIndex \<Rightarrow> 'q \<Rightarrow> int \<Rightarrow>
     (ustr \<times> 's) list \<times> 'v FaissIndex" where
  "search isearch s query_vector top_k =
     (map (\<lambda>(score, idx). (passages s ! nat idx, score))
        (filter (\<lambda>(score, idx). \<not> (idx < 0 \<or> idx \<ge> int (length (passages s))))
           (isearch (index_vectors s) query_vector top_k)), s)"

text \<open>The states reachable through construction and \<open>add\<close>, whatever \<open>add\<close> returns.\<close>

inductive reachable :: "'v FaissIndex \<Rightarrow> bool" where
  init: "reachable (new_index d)"
| step: "reachable s \<Longrightarrow> reachable (snd (add s vecs ps))"

section \<open>rag.py: the chat answer router\<close>

text \<open>
  \<open>str.lower()\<close>, one code point at a time. ASCII and Latin-1 capitals are mapped, and the
  two capitals beyond Latin-1 whose lower case contains an ASCII letter (U+0130, U+212A);
  the other cased characters beyond U+00FF are left as they are: their lower case has no
  ASCII letter, and the keywords below are ASCII.
\<close>

definition lower_cp :: "int \<Rightarrow> ustr" where
  "lower_cp c =
     (if 65 \<le> c \<and> c \<le> 90 then [c + 32]
      else if 192 \<le> c \<and> c \<le> 222 \<and> c \<noteq> 215 then [c + 32]
      else if c = 304 then [105, 775]
      else if c = 8490 then [107]
      else [c])"

definition lower :: "ustr \<Rightarrow> ustr" where
  "lower s = concat (map lower_cp s)"

text \<open>\<open>s.split(" ")\<close>: cut at every single space; empty pieces are kept.\<close>

fun split_on :: "int \<Rightarrow> ustr \<Rightarrow> ustr list" where
  "split_on c [] = [[]]"
| "split_on c (x # xs) =
     (if x = c then [] # split_on c xs
      else (case split_on c xs of [] \<Rightarrow> [[x]] | w # ws \<Rightarrow> (x # w) # ws))"

definition COMMON_CORRECTIONS :: "(ustr \<times> ustr) list" where
  "COMMON_CORRECTIONS =
     [(u ''wther'', u ''whether''), (u ''wether'', u ''whether''),
      (u ''finacial'', u ''financial''), (u ''finanicial'', u ''financial''),
      (u ''summery'', u ''summary''), (u ''sumarize'', u ''summarize''),
      (u ''summarise'', u ''summarize'')]"

definition normalize_user_question :: "ustr \<Rightarrow> ustr" where
  "normalize_user_question question =
     (let q = join (u '' '') (split_ws (strip question))
      in if q = [] then []
         else join (u '' '')
                (map (\<lambda>t. case map_of COMMON_CORRECTIONS (lower t) of Some r \<Rightarrow> r | None \<Rightarrow> t)
                   (split_on 32 q)))"

definition wants_summary :: "ustr \<Rightarrow> bool" where
  "wants_summary q =
     (let ql = lower q
      in list_ex (\<lambda>k. str_in k ql) [u ''summarize'', u ''summary'', u ''summarise''])"

definition summary_is_underspecified :: "ustr \<Rightarrow> bool" where
  "summary_is_underspecified q =
     (let ql = lower q
      in if \<not> wants_summary ql then False
         else \<not> list_ex (\<lambda>m. str_in m ql)
                  [u ''page'', u ''pages'', u ''section'', u ''chapter'', u ''table'', u ''about'',
                   u ''focus on'', u ''only''])"

definition FINANCE_TERMS :: "ustr list" where
  "FINANCE_TERMS =
     [u ''revenue'', u ''income'', u ''expense'', u ''expenses'', u ''cost'', u ''costs'',
      u ''profit'', u ''loss'', u ''balance'', u ''debit'', u ''credit'', u ''interest'', u ''tax'',
      u ''invoice'', u ''payment'', u ''transaction'', u ''cash flow'', u ''budget'', u ''assets'',
      u ''liabilities'', u ''equity'', u ''fee'', u ''charge'', u ''refund'', u ''amount'',
      u ''total'', u ''subtotal'', u ''account'', u ''statement'']"

definition looks_like_financial_concepts_question :: "ustr \<Rightarrow> bool" where
  "looks_like_financial_concepts_question q =
     (let ql = lower q
      in str_in (u ''financial concept'') ql \<or> str_in (u ''financial concepts'') ql \<or>
         (str_in (u ''financial'') ql \<and>
          list_ex (\<lambda>w. str_in w ql) [u ''concept'', u ''concepts'', u ''terms'', u ''topics'']))"

text \<open>The de-duplication loop: the first occurrence of every element, in order.\<close>

fun dedupe :: "'a list \<Rightarrow> 'a list \<Rightarrow> 'a list" where
  "dedupe seen [] = []"
| "dedupe seen (x # xs) = (if x \<in> set seen then dedupe seen xs else x # dedupe (x # seen) xs)"

text \<open>\<open>money_search\<close> stands for \<open>_MONEY_RE.search\<close>, the regular-expression engine's answer
  whether the pattern occurs in the text.\<close>

definition extract_financial_concepts_from_context :: "(ustr \<Rightarrow> bool) \<Rightarrow> ustr list \<Rightarrow> ustr list" where
  "extract_financial_concepts_from_context money_search context_passages =
     (let joined = join [10] context_passages;
          jl = lower joined;
          found = filter (\<lambda>term. str_in term jl) FINANCE_TERMS;
          found' = (if money_search joined then found @ [u ''currency amounts''] else found)
      in dedupe [] found')"

definition build_llm_prompt :: "ustr \<Rightarrow> ustr list \<Rightarrow> ustr" where
  "build_llm_prompt question context_passages =
     (let context = join [10, 10] context_passages
      in u ''You are a helpful PDF RAG assistant.'' @ [10] @
         u ''- Use the provided context to answer questions about the PDF.'' @ [10] @
         u ''- You MAY use general knowledge for definitions or explanations, but do NOT invent facts that are not supported by the context.'' @ [10] @
         u ''- When you cite something from the PDF, prefer quoting short phrases and keep the [page N] tags if present.'' @ [10] @
         u ''- Only ask clarifying questions when the user request is genuinely underspecified.'' @ [10] @
         [10] @
         u ''Context:'' @ [10] @ context @ [10, 10] @
         u ''User question: '' @ question @ [10] @
         u ''Answer:'')"

text \<open>
  The three oracles are network calls: their answers are parameters of the model, and
  every call made is recorded, in order, next to the result. \<open>provider\<close> is the value of
  the environment variable \<open>LLM_PROVIDER\<close> (\<open>None\<close> when it is not set).
\<close>

record 's RetrievedPassage =
  rp_text :: ustr
  rp_score :: 's

record oracles =
  provider :: "ustr option"
  try_gemini_chat :: "ustr \<Rightarrow> ustr option \<times> ustr option"
  try_openai_chat :: "ustr \<Rightarrow> ustr option"
  try_ollama_chat :: "ustr \<Rightarrow> ustr option \<times> ustr option"
  money_re_search :: "ustr \<Rightarrow> bool"

datatype oracle_call = CallGemini ustr | CallOpenAI ustr | CallOllama ustr

text \<open>Python's truth value of an optional string: present and not empty.\<close>

definition truthy :: "ustr option \<Rightarrow> bool" where
  "truthy x = (case x of None \<Rightarrow> False | Some s \<Rightarrow> s \<noteq> [])"

definition CLARIFY_TEXT :: ustr where
  "CLARIFY_TEXT =
     u ''Do you want a summary of the whole PDF, or a specific section/pages? '' @
     u ''Also, should it be short (5 bullets) or detailed (1'' @ [8211] @ u ''2 paragraphs)?''"

definition concepts_answer :: "ustr list \<Rightarrow> ustr" where
  "concepts_answer concepts =
     u ''Yes '' @ [8212] @ u '' I see financial-related content in the retrieved parts of the PDF. '' @
     u ''Examples of financial concepts/terms mentioned: '' @ join (u '', '') (take 10 concepts) @ u ''. '' @
     u ''If you want, tell me whether you mean *accounting terms*, *financial statements*, or *finance theory*, and I'' @
     [8217] @ u ''ll narrow it down.''"

text \<open>The extractive fallback, after the oracle (if any) gave no answer.\<close>

definition extractive_fallback ::
  "ustr \<Rightarrow> ustr option \<Rightarrow> 's RetrievedPassage list \<Rightarrow> ustr \<times> bool" where
  "extractive_fallback prov llm_error retrieved =
     (if retrieved = [] then (u ''I couldn'' @ [39] @ u ''t find anything relevant in the PDF.'', False)
      else (let top = join [10, 10] (map rp_text (take 3 retrieved))
            in if prov = u ''None'' \<or> prov = [] then
                 (u ''No LLM provider selected. Choose one (Gemini / OpenAI / Ollama) in the sidebar. '' @
                  u ''For now, here are the most relevant passages:'' @ [10, 10] @ top, False)
               else
                 (prov @ u '' did not return an answer. Check your settings in the sidebar.'' @
                  (if truthy llm_error then [10, 10] @ u ''Error: '' @ the llm_error else []) @
                  [10, 10] @ u ''Relevant passages:'' @ [10, 10] @ top, False)))"

definition answer_with_llm_or_extract ::
  "oracles \<Rightarrow> ustr \<Rightarrow> 's RetrievedPassage list \<Rightarrow> (ustr \<times> bool) \<times> oracle_call list" where
  "answer_with_llm_or_extract env question retrieved =
     (let q = normalize_user_question question;
          context = map rp_text retrieved;
          concepts = extract_financial_concepts_from_context (money_re_search env) context
      in if summary_is_underspecified q then ((CLARIFY_TEXT, False), [])
         else if looks_like_financial_concepts_question q \<and> concepts \<noteq> []
           then ((concepts_answer concepts, False), [])
         else
           (let prompt = build_llm_prompt (if q \<noteq> [] then q else question) context;
                prov = (case provider env of None \<Rightarrow> u ''None'' | Some p \<Rightarrow> p)
            in if prov = u ''Gemini'' then
                 (case try_gemini_chat env prompt of (ans, llm_error) \<Rightarrow>
                    if truthy ans then ((the ans, True), [CallGemini prompt])
                    else (extractive_fallback prov llm_error retrieved, [CallGemini prompt]))
               else if prov = u ''OpenAI'' then
                 (let ans = try_openai_chat env prompt
                  in if truthy ans then ((the ans, True), [CallOpenAI prompt])
                     else (extractive_fallback prov
                             (Some (u ''OpenAI call failed. Check your API key.'')) retrieved,
                           [CallOpenAI prompt]))
               else if prov = u ''Ollama'' then
                 (case try_ollama_chat env prompt of (ans, llm_error) \<Rightarrow>
                    if truthy ans then ((the ans, True), [CallOllama prompt])
                    else (extractive_fallback prov llm_error retrieved, [CallOllama prompt]))
               else (extractive_fallback prov None retrieved, [])))"

section \<open>finance_analysis.py: numbers\<close>

text \<open>
  A Python \<open>float\<close> is a binary64 number. Finite floats are modelled by the rationals they
  denote, and every operation that produces a float is the exact operation followed by a
  rounding \<open>fl\<close>, which is a parameter: the identity gives exact arithmetic, \<open>b64\<close> below gives
  round-to-nearest-even on 53 significant bits. Overflow to infinity, subnormal numbers and
  NaN are not modelled.
\<close>

function bitlen :: "int \<Rightarrow> int" where
  "bitlen n = (if n \<le> 0 then 0 else 1 + bitlen (n div 2))"
  by pat_completeness auto
termination
  by (relation "measure nat") auto

text \<open>\<open>pow2 e\<close> is \<open>2\<close> to the power \<open>e\<close>, for an integer \<open>e\<close> of either sign.\<close>

definition pow2 :: "int \<Rightarrow> rat" where
  "pow2 e = (if 0 \<le> e then 2 ^ nat e else 1 / 2 ^ nat (- e))"

text \<open>The exponent \<open>e\<close> with \<open>2 ^ e \<le> a < 2 ^ (e + 1)\<close>, for \<open>a > 0\<close>.\<close>

definition ilog2 :: "rat \<Rightarrow> int" where
  "ilog2 a =
     (case quotient_of a of (p, q) \<Rightarrow>
        (let d = bitlen p - bitlen q in if pow2 d \<le> a then d else d - 1))"

definition round_half_even :: "rat \<Rightarrow> int" where
  "round_half_even m =
     (let n = \<lfloor>m\<rfloor>; r = m - of_int n
      in if r < 1 / 2 then n else if 1 / 2 < r then n + 1 else if even n then n else n + 1)"

definition b64 :: "rat \<Rightarrow> rat" where
  "b64 x =
     (if x = 0 then 0
      else (let a = \<bar>x\<bar>; sc = pow2 (52 - ilog2 a); m = of_int (round_half_even (a * sc)) / sc
            in if x < 0 then - m else m))"

text \<open>The running sum that starts from \<open>acc\<close>, rounding after every addition.\<close>

definition add_seq :: "(rat \<Rightarrow> rat) \<Rightarrow> rat \<Rightarrow> rat list \<Rightarrow> rat" where
  "add_seq rnd acc xs = foldl (\<lambda>a x. rnd (a + x)) acc xs"

text \<open>
  \<open>Series.sum()\<close> is the sum of the array library, a pairwise summation. Up to seven
  addends are added from left to right. From eight on, eight running sums take the
  addends in turn, block of eight after block of eight; they are combined as
  \<open>((r0+r1)+(r2+r3))+((r4+r5)+(r6+r7))\<close>, and the addends left over (fewer than eight) are
  added one by one. Over 128 addends the array is cut near its middle, at a multiple of
  eight, and the sums of the two parts are added.
\<close>

function add_blocks :: "(rat \<Rightarrow> rat) \<Rightarrow> rat list \<Rightarrow> rat list \<Rightarrow> rat list \<times> rat list" where
  "add_blocks rnd r xs =
     (if length xs < 8 then (r, xs)
      else add_blocks rnd (map2 (\<lambda>a x. rnd (a + x)) r (take 8 xs)) (drop 8 xs))"
  by pat_completeness auto
termination
  by (relation "measure (\<lambda>(rnd, r, xs). length xs)") auto

function pairwise_sum :: "(rat \<Rightarrow> rat) \<Rightarrow> rat list \<Rightarrow> rat" where
  "pairwise_sum rnd xs =
     (if length xs < 8 then add_seq rnd 0 xs
      else if length xs \<le> 128 then
        (case add_blocks rnd (take 8 xs) (drop 8 xs) of
           (r, rest) \<Rightarrow>
             add_seq rnd
               (rnd (rnd (rnd (r ! 0 + r ! 1) + rnd (r ! 2 + r ! 3)) +
                     rnd (rnd (r ! 4 + r ! 5) + rnd (r ! 6 + r ! 7)))) rest)
      else rnd (pairwise_sum rnd (take (length xs div 2 - length xs div 2 mod 8) xs) +
                pairwise_sum rnd (drop (length xs div 2 - length xs div 2 mod 8) xs)))"
  by pat_completeness auto
termination
  by (relation "measure (\<lambda>(rnd, xs). length xs)") auto

declare add_blocks.simps [simp del] pairwise_sum.simps [simp del]

text \<open>The sum of an empty series is \<open>0.0\<close>.\<close>

definition np_sum :: "(rat \<Rightarrow> rat) \<Rightarrow> rat list \<Rightarrow> rat" where
  "np_sum rnd xs = (if xs = [] then 0 else pairwise_sum rnd xs)"

text \<open>
  \<open>resample(freq).sum()\<close> adds the rows of a bin with a compensated (Kahan) summation:
  \<open>y = val - compensation; t = sumx + y; compensation = t - sumx - y; sumx = t\<close>. A
  result that is exactly zero is a float and is not rounded.
\<close>

definition rnd0 :: "(rat \<Rightarrow> rat) \<Rightarrow> rat \<Rightarrow> rat" where
  "rnd0 rnd x = (if x = 0 then 0 else rnd x)"

definition kahan_step :: "(rat \<Rightarrow> rat) \<Rightarrow> rat \<times> rat \<Rightarrow> rat \<Rightarrow> rat \<times> rat" where
  "kahan_step rnd st val =
     (case st of (sumx, compensation) \<Rightarrow>
        (let y = rnd0 rnd (val - compensation);
             t = rnd0 rnd (sumx + y)
         in (t, rnd0 rnd (rnd0 rnd (t - sumx) - y))))"

definition group_sum :: "(rat \<Rightarrow> rat) \<Rightarrow> rat list \<Rightarrow> rat" where
  "group_sum rnd xs = fst (foldl (kahan_step rnd) (0, 0) xs)"

section \<open>finance_analysis.py: tables\<close>

text \<open>
  A cell of a data frame: missing (\<open>None\<close>, \<open>NaN\<close>, \<open>NaT\<close>), a string, a float, or a
  timestamp (nanoseconds since 1970-01-01T00:00:00).
\<close>

datatype cell = CNone | CStr ustr | CNum rat | CTime int

text \<open>A data frame: the column labels and the rows, every row as long as the labels.\<close>

record frame =
  columns :: "ustr list"
  rows :: "cell list list"

text \<open>
  What the code takes from its libraries and the source does not define:
  \<^item> \<open>fl\<close>: the rounding of float arithmetic;
  \<^item> \<open>to_datetime col c\<close>: what \<open>pandas.to_datetime(col, errors="coerce")\<close> gives for the cell
    \<open>c\<close> of the column \<open>col\<close> (\<open>None\<close> is \<open>NaT\<close>);
  \<^item> \<open>amount_re_search s\<close>: whether the pattern \<open>_AMOUNT_RE\<close> occurs in \<open>s\<close>;
  \<^item> \<open>sort_values key rs\<close>: the rows \<open>rs\<close> as \<open>DataFrame.sort_values\<close> orders them by \<open>key\<close>.
\<close>

record pylib =
  fl :: "rat \<Rightarrow> rat"
  to_datetime :: "cell list \<Rightarrow> cell \<Rightarrow> int option"
  amount_re_search :: "ustr \<Rightarrow> bool"
  sort_values :: "(cell list \<Rightarrow> rat) \<Rightarrow> cell list list \<Rightarrow> cell list list"

record FinanceParseResult =
  df :: frame
  datetime_col :: ustr
  amount_col :: ustr
  category_col :: "ustr option"

definition DATE_HINTS :: "ustr list" where
  "DATE_HINTS = [u ''date'', u ''time'', u ''datetime'', u ''timestamp'']"

definition AMOUNT_HINTS :: "ustr list" where
  "AMOUNT_HINTS = [u ''amount'', u ''amt'', u ''value'', u ''total'', u ''debit'', u ''credit'',
                   u ''payment'', u ''balance'']"

definition CATEGORY_HINTS :: "ustr list" where
  "CATEGORY_HINTS = [u ''category'', u ''type'', u ''merchant'', u ''description'', u ''desc'',
                     u ''account'']"

text \<open>\<open>re.sub(r"\s+", " ", s)\<close>: every maximal run of white space becomes one space.\<close>

fun collapse_ws :: "bool \<Rightarrow> ustr \<Rightarrow> ustr" where
  "collapse_ws in_run [] = []"
| "collapse_ws in_run (c # cs) =
     (if is_space c then (if in_run then collapse_ws True cs else 32 # collapse_ws True cs)
      else c # collapse_ws False cs)"

definition normalize_col :: "ustr \<Rightarrow> ustr" where
  "normalize_col c = collapse_ws False (lower (strip c))"

definition is_digit :: "int \<Rightarrow> bool" where
  "is_digit c \<longleftrightarrow> 48 \<le> c \<and> c \<le> 57"

text \<open>The value of a string of ASCII digits.\<close>

definition digits_val :: "ustr \<Rightarrow> int" where
  "digits_val ds = foldl (\<lambda>a c. 10 * a + (c - 48)) 0 ds"

text \<open>
  \<open>float(s)\<close> for a string \<open>s\<close> of the characters \<open>0-9 . - +\<close> (all that the substitution in
  \<open>_to_number\<close> leaves): an optional sign, then digits with at most one point and at
  least one digit. The result is the exact decimal value; \<open>None\<close> is \<open>ValueError\<close>.
\<close>

definition py_float :: "ustr \<Rightarrow> rat option" where
  "py_float s =
     (let neg = (s \<noteq> [] \<and> hd s = 45);
          r = (if s \<noteq> [] \<and> (hd s = 45 \<or> hd s = 43) then tl s else s);
          ip = takeWhile is_digit r;
          r1 = dropWhile is_digit r;
          fp = (if r1 \<noteq> [] \<and> hd r1 = 46 then takeWhile is_digit (tl r1) else []);
          r2 = (if r1 \<noteq> [] \<and> hd r1 = 46 then dropWhile is_digit (tl r1) else r1);
          v = of_int (digits_val ip) + of_int (digits_val fp) / 10 ^ length fp
      in if r2 \<noteq> [] \<or> (ip = [] \<and> fp = []) then None
         else Some (if neg then - v else v))"

text \<open>\<open>_to_number\<close> on a cell of a raw grid: \<open>None\<close> or a string.\<close>

definition to_number :: "(rat \<Rightarrow> rat) \<Rightarrow> ustr option \<Rightarrow> rat option" where
  "to_number rnd x =
     (case x of
        None \<Rightarrow> None
      | Some x0 \<Rightarrow>
         (let s = strip x0
          in if s = [] then None
             else (let neg = (40 \<in> set s \<and> 41 \<in> set s);
                       s1 = filter (\<lambda>c. c \<noteq> 44) (filter (\<lambda>c. c \<noteq> 36) s);
                       s2 = filter (\<lambda>c. is_digit c \<or> c = 46 \<or> c = 45 \<or> c = 43) s1
                   in if s2 = [] then None
                      else (case py_float s2 of
                              None \<Rightarrow> None
                            | Some v \<Rightarrow> Some (if neg then - \<bar>rnd v\<bar> else rnd v)))))"

section \<open>finance_analysis.py: column detection\<close>

text \<open>The positions of the columns labelled \<open>c\<close> (labels can repeat), and a row's cell.\<close>

definition col_positions :: "frame \<Rightarrow> ustr \<Rightarrow> nat list" where
  "col_positions d c = filter (\<lambda>i. columns d ! i = c) [0..<length (columns d)]"

definition cell_at :: "cell list \<Rightarrow> nat \<Rightarrow> cell" where
  "cell_at r i = (if i < length r then r ! i else CNone)"

text \<open>
  \<open>df[c].dropna()\<close>: the rows in which every column labelled \<open>c\<close> is present. For a label
  that occurs once this is a series; for a repeated label it is a data frame, on which
  the detection loops raise.
\<close>

definition present_rows :: "frame \<Rightarrow> ustr \<Rightarrow> cell list list" where
  "present_rows d c =
     filter (\<lambda>r. list_all (\<lambda>i. cell_at r i \<noteq> CNone) (col_positions d c)) (rows d)"

text \<open>\<open>.astype(str)\<close> on the present cells of a column that still holds the grid's strings
  (a detection loop never reads a column after it has been coerced).\<close>

definition str_cells :: "cell list \<Rightarrow> ustr list" where
  "str_cells cs = concat (map (\<lambda>c. case c of CStr s \<Rightarrow> [s] | _ \<Rightarrow> []) cs)"

fun first_match :: "('a \<Rightarrow> 'b option) \<Rightarrow> 'a list \<Rightarrow> 'b option" where
  "first_match f [] = None"
| "first_match f (x # xs) = (case f x of Some y \<Rightarrow> Some y | None \<Rightarrow> first_match f xs)"

text \<open>\<open>_best_col\<close>: the dictionary \<open>norm\<close> keeps one entry per label, in the order of first
  occurrence.\<close>

definition best_col :: "ustr list \<Rightarrow> ustr list \<Rightarrow> ustr option" where
  "best_col cols hints =
     (let norm = map (\<lambda>c. (c, normalize_col c)) (dedupe [] cols)
      in first_match (\<lambda>h. map_option fst (find (\<lambda>(c, nc). str_in h nc) norm)) hints)"

fun amount_loop ::
  "pylib \<Rightarrow> frame \<Rightarrow> ustr list \<Rightarrow> ustr option \<times> rat \<Rightarrow> py_error + (ustr option \<times> rat)" where
  "amount_loop L d [] st = Inr st"
| "amount_loop L d (c # cs) (best, best_score) =
     (let series = present_rows d c
      in if series = [] then amount_loop L d cs (best, best_score)
         else if length (col_positions d c) \<noteq> 1 then Inl AttributeError
         else (let vals = str_cells (map (\<lambda>r. cell_at r (hd (col_positions d c))) series);
                   hits = fl L (of_nat (length (filter (amount_re_search L) vals)) /
                                of_nat (length vals))
               in if hits > best_score then amount_loop L d cs (Some c, hits)
                  else amount_loop L d cs (best, best_score)))"

definition detect_amount_col :: "pylib \<Rightarrow> frame \<Rightarrow> py_error + ustr option" where
  "detect_amount_col L d =
     (let cols = columns d; hinted = best_col cols AMOUNT_HINTS
      in if truthy hinted then Inr hinted
         else (case amount_loop L d cols (None, 0) of
                 Inl e \<Rightarrow> Inl e
               | Inr (best, best_score) \<Rightarrow>
                   Inr (if best_score \<ge> fl L (3 / 10) then best else None)))"

fun datetime_loop ::
  "pylib \<Rightarrow> frame \<Rightarrow> ustr list \<Rightarrow> ustr option \<times> rat \<Rightarrow> py_error + (ustr option \<times> rat)" where
  "datetime_loop L d [] st = Inr st"
| "datetime_loop L d (c # cs) (best, best_rate) =
     (if length (col_positions d c) \<noteq> 1 then Inl ValueError
      else (let s = map (\<lambda>r. cell_at r (hd (col_positions d c))) (rows d);
                parsed = map (to_datetime L s) s;
                rate = fl L (of_nat (length (filter (\<lambda>p. p \<noteq> None) parsed)) /
                             of_nat (length parsed))
            in if parsed \<noteq> [] \<and> rate > best_rate then datetime_loop L d cs (Some c, rate)
               else datetime_loop L d cs (best, best_rate)))"

definition detect_datetime_col :: "pylib \<Rightarrow> frame \<Rightarrow> py_error + ustr option" where
  "detect_datetime_col L d =
     (let cols = columns d; hinted = best_col cols DATE_HINTS
      in if truthy hinted then Inr hinted
         else (case datetime_loop L d cols (None, 0) of
                 Inl e \<Rightarrow> Inl e
               | Inr (best, best_rate) \<Rightarrow>
                   Inr (if best_rate \<ge> fl L (3 / 10) then best else None)))"

fun category_loop ::
  "pylib \<Rightarrow> frame \<Rightarrow> ustr list \<Rightarrow> ustr option \<times> rat \<Rightarrow> py_error + (ustr option \<times> rat)" where
  "category_loop L d [] st = Inr st"
| "category_loop L d (c # cs) (best, best_score) =
     (let s = present_rows d c
      in if s = [] then category_loop L d cs (best, best_score)
         else if length (col_positions d c) \<noteq> 1 then Inl ValueError
         else (let vals = str_cells (map (\<lambda>r. cell_at r (hd (col_positions d c))) s);
                   unique = length (remdups vals);
                   n = length vals;
                   ratio = fl L (of_nat unique / of_nat (max 1 n));
                   score = fl L (1 - \<bar>fl L (ratio - fl L (1 / 5))\<bar>)
               in if score > best_score then category_loop L d cs (Some c, score)
                  else category_loop L d cs (best, best_score)))"

definition detect_category_col :: "pylib \<Rightarrow> frame \<Rightarrow> ustr list \<Rightarrow> py_error + ustr option" where
  "detect_category_col L d exclude =
     (let cols = filter (\<lambda>c. c \<notin> set exclude) (columns d);
          hinted = best_col cols CATEGORY_HINTS
      in if truthy hinted then Inr hinted
         else (case category_loop L d cols (None, 0) of
                 Inl e \<Rightarrow> Inl e
               | Inr (best, best_score) \<Rightarrow> Inr best))"

section \<open>finance_analysis.py: parse_financial_tables\<close>

type_synonym grid = "ustr option list list"

text \<open>
  \<open>pd.DataFrame(body, columns=header)\<close> for a list of lists: the rows are padded with \<open>None\<close>
  to the longest of them, and the constructor raises \<open>ValueError\<close> when that length is not
  the number of labels.
\<close>

definition make_frame :: "ustr list \<Rightarrow> grid \<Rightarrow> py_error + frame" where
  "make_frame header body =
     (let k = foldr (\<lambda>r m. max (length r) m) body 0
      in if body = [] then Inr \<lparr>columns = header, rows = []\<rparr>
         else if k \<noteq> length header then Inl ValueError
         else Inr \<lparr>columns = header,
                   rows = map (\<lambda>r. map (\<lambda>x. case x of None \<Rightarrow> CNone | Some s \<Rightarrow> CStr s) r @
                                    replicate (k - length r) CNone) body\<rparr>)"

text \<open>Apply \<open>f\<close> to the cells of the columns labelled \<open>c\<close>.\<close>

definition map_col :: "frame \<Rightarrow> ustr \<Rightarrow> (cell \<Rightarrow> cell) \<Rightarrow> frame" where
  "map_col d c f =
     d\<lparr>rows := map (\<lambda>r. map (\<lambda>i. if columns d ! i = c then f (cell_at r i) else cell_at r i)
                        [0..<length (columns d)]) (rows d)\<rparr>"

text \<open>
  \<open>.map(_to_number)\<close> on a cell of the amount column. The cell is the grid's, or, when the
  amount column is also the datetime column, a timestamp or \<open>NaT\<close>: the text of a
  timestamp has \<open>-\<close> between its digits and \<open>NaT\<close> has none, so \<open>float\<close> fails on both.
\<close>

definition coerce_amount :: "(rat \<Rightarrow> rat) \<Rightarrow> cell \<Rightarrow> cell" where
  "coerce_amount rnd c =
     (case c of
        CStr s \<Rightarrow> (case to_number rnd (Some s) of None \<Rightarrow> CNone | Some v \<Rightarrow> CNum v)
      | CNum v \<Rightarrow> CNum v
      | _ \<Rightarrow> CNone)"

definition coerce_datetime :: "pylib \<Rightarrow> cell list \<Rightarrow> cell \<Rightarrow> cell" where
  "coerce_datetime L col c = (case to_datetime L col c of None \<Rightarrow> CNone | Some t \<Rightarrow> CTime t)"

text \<open>One iteration of the loop over the tables: \<open>Inr None\<close> is \<open>continue\<close>, \<open>Inr (Some c)\<close> the
  candidate, \<open>Inl e\<close> an exception of the data-frame library.\<close>

definition candidate :: "pylib \<Rightarrow> grid \<Rightarrow> py_error + FinanceParseResult option" where
  "candidate L t =
     (if length t < 2 then Inr None
      else (let header = map (\<lambda>x. strip (case x of None \<Rightarrow> [] | Some s \<Rightarrow> s)) (hd t)
            in if length (filter (\<lambda>h. h \<noteq> []) header) < 2 then Inr None
               else (case make_frame header (tl t) of
                  Inl e \<Rightarrow> Inl e
                | Inr d0 \<Rightarrow>
                   (let d = d0\<lparr>rows := filter (\<lambda>r. list_ex (\<lambda>c. c \<noteq> CNone) r) (rows d0)\<rparr>
                    in if length (rows d) < 3 then Inr None
                       else (case detect_datetime_col L d of
                          Inl e \<Rightarrow> Inl e
                        | Inr dt_col \<Rightarrow>
                           (case detect_amount_col L d of
                              Inl e \<Rightarrow> Inl e
                            | Inr amt_col \<Rightarrow>
                               if \<not> truthy dt_col \<or> \<not> truthy amt_col then Inr None
                               else if length (col_positions d (the dt_col)) \<noteq> 1 then Inl ValueError
                               else
                                 (let dt = the dt_col; amt = the amt_col;
                                      col = map (\<lambda>r. cell_at r (hd (col_positions d dt))) (rows d);
                                      d1 = map_col d dt (coerce_datetime L col);
                                      d2 = map_col d1 amt (coerce_amount (fl L));
                                      d3 = d2\<lparr>rows := filter
                                             (\<lambda>r. list_all (\<lambda>i. cell_at r i \<noteq> CNone)
                                                    (col_positions d2 dt @ col_positions d2 amt))
                                             (rows d2)\<rparr>
                                  in if length (rows d3) < 3 then Inr None
                                     else (case detect_category_col L d3 [dt, amt] of
                                        Inl e \<Rightarrow> Inl e
                                      | Inr cat_col \<Rightarrow>
                                          Inr (Some \<lparr>df = d3, datetime_col = dt, amount_col = amt,
                                                     category_col = cat_col\<rparr>)))))))))"

fun parse_loop ::
  "pylib \<Rightarrow> grid list \<Rightarrow> FinanceParseResult option \<times> nat \<Rightarrow>
     py_error + FinanceParseResult option" where
  "parse_loop L [] (best, best_rows) = Inr best"
| "parse_loop L (t # ts) (best, best_rows) =
     (case candidate L t of
        Inl e \<Rightarrow> Inl e
      | Inr None \<Rightarrow> parse_loop L ts (best, best_rows)
      | Inr (Some c) \<Rightarrow>
          if length (rows (df c)) > best_rows
          then parse_loop L ts (Some c, length (rows (df c)))
          else parse_loop L ts (best, best_rows))"

definition parse_financial_tables ::
  "pylib \<Rightarrow> grid list \<Rightarrow> py_error + FinanceParseResult option" where
  "parse_financial_tables L tables = parse_loop L tables (None, 0)"

section \<open>finance_analysis.py: analytics\<close>

text \<open>
  \<open>df[c]\<close> as a series: \<open>KeyError\<close> when no column has the label; with a repeated label the
  selection is a data frame, on which the analytics raise.
\<close>

definition the_column :: "frame \<Rightarrow> ustr \<Rightarrow> py_error + cell list" where
  "the_column d c =
     (case col_positions d c of
        [] \<Rightarrow> Inl KeyError
      | [i] \<Rightarrow> Inr (map (\<lambda>r. cell_at r i) (rows d))
      | _ \<Rightarrow> Inl TypeError)"

definition num_of :: "cell \<Rightarrow> rat" where
  "num_of c = (case c of CNum v \<Rightarrow> v | _ \<Rightarrow> 0)"

definition time_of :: "cell \<Rightarrow> int" where
  "time_of c = (case c of CTime t \<Rightarrow> t | _ \<Rightarrow> 0)"

definition is_num :: "cell \<Rightarrow> bool" where
  "is_num c = (case c of CNum v \<Rightarrow> True | _ \<Rightarrow> False)"

definition is_time :: "cell \<Rightarrow> bool" where
  "is_time c = (case c of CTime t \<Rightarrow> True | _ \<Rightarrow> False)"

text \<open>
  The amount column as floats and the datetime column as timestamps. A
  \<open>FinanceParseResult\<close> made by \<open>parse_financial_tables\<close> has a number in every cell of its
  amount column and a timestamp in every cell of its datetime column; on a frame with
  other cells there the model reports an error.
\<close>

definition as_floats :: "cell list \<Rightarrow> py_error + rat list" where
  "as_floats cs = (if list_all is_num cs then Inr (map num_of cs) else Inl ValueError)"

definition as_times :: "cell list \<Rightarrow> py_error + int list" where
  "as_times cs = (if list_all is_time cs then Inr (map time_of cs) else Inl TypeError)"

definition amounts :: "FinanceParseResult \<Rightarrow> py_error + rat list" where
  "amounts p =
     (case the_column (df p) (amount_col p) of Inl e \<Rightarrow> Inl e | Inr cs \<Rightarrow> as_floats cs)"

definition times :: "FinanceParseResult \<Rightarrow> py_error + int list" where
  "times p =
     (case the_column (df p) (datetime_col p) of Inl e \<Rightarrow> Inl e | Inr cs \<Rightarrow> as_times cs)"

record totals_result =
  t_rows :: int
  t_sum :: rat
  t_income_sum_pos :: rat
  t_expense_sum_neg :: rat
  t_mean :: "rat option"

text \<open>\<open>totals\<close>; the mean of an empty series is \<open>NaN\<close>, here \<open>None\<close>.\<close>

definition totals :: "pylib \<Rightarrow> FinanceParseResult \<Rightarrow> py_error + totals_result" where
  "totals L p =
     (case amounts p of
        Inl e \<Rightarrow> Inl e
      | Inr s \<Rightarrow>
          Inr \<lparr>t_rows = int (length (rows (df p))),
               t_sum = np_sum (fl L) s,
               t_income_sum_pos = np_sum (fl L) (filter (\<lambda>x. x > 0) s),
               t_expense_sum_neg = np_sum (fl L) (filter (\<lambda>x. x < 0) s),
               t_mean = (if s = [] then None
                         else Some (fl L (np_sum (fl L) s / of_nat (length s))))\<rparr>)"




text \<open>The proleptic Gregorian calendar: days since 1970-01-01 of a date, and back.\<close>

definition days_from_civil :: "int \<Rightarrow> int \<Rightarrow> int \<Rightarrow> int" where
  "days_from_civil y0 m d =
     (let y = (if m \<le> 2 then y0 - 1 else y0);
          era = y div 400;
          yoe = y - era * 400;
          doy = (153 * (if m > 2 then m - 3 else m + 9) + 2) div 5 + d - 1;
          doe = yoe * 365 + yoe div 4 - yoe div 100 + doy
      in era * 146097 + doe - 719468)"

definition civil_from_days :: "int \<Rightarrow> int \<times> int \<times> int" where
  "civil_from_days z0 =
     (let z = z0 + 719468;
          era = z div 146097;
          doe = z - era * 146097;
          yoe = (doe - doe div 1460 + doe div 36524 - doe div 146096) div 365;
          y = yoe + era * 400;
          doy = doe - (365 * yoe + yoe div 4 - yoe div 100);
          mp = (5 * doy + 2) div 153;
          d = doy - (153 * mp + 2) div 5 + 1;
          m = (if mp < 10 then mp + 3 else mp - 9)
      in (if m \<le> 2 then y + 1 else y, m, d))"

definition NS_PER_HOUR :: int where
  "NS_PER_HOUR = 3600000000000"

definition NS_PER_DAY :: int where
  "NS_PER_DAY = 86400000000000"

datatype freq = H | D | M

text \<open>
  The time bucket of a timestamp, as an index: hours since the epoch, days since the
  epoch, months since year 0. The resampler labels a bucket with its first instant
  (\<open>H\<close>, \<open>D\<close>) or with the last day of the month (\<open>M\<close>): the label grows with the index.
\<close>

definition bucket_of :: "freq \<Rightarrow> int \<Rightarrow> int" where
  "bucket_of f t =
     (case f of
        H \<Rightarrow> t div NS_PER_HOUR
      | D \<Rightarrow> t div NS_PER_DAY
      | M \<Rightarrow> (case civil_from_days (t div NS_PER_DAY) of (y, m, d) \<Rightarrow> 12 * y + (m - 1)))"

record bucket =
  period :: int
  total_amount :: rat
  abs_total :: rat

text \<open>
  \<open>aggregate_finance\<close>: \<open>resample(freq).sum()\<close> makes one bin for every period from that of
  the earliest row to that of the latest, and the sum of a bin without rows is \<open>0\<close>.
\<close>

definition aggregate_finance ::
  "pylib \<Rightarrow> FinanceParseResult \<Rightarrow> freq \<Rightarrow> py_error + bucket list" where
  "aggregate_finance L p f =
     (case times p of
        Inl e \<Rightarrow> Inl e
      | Inr ts \<Rightarrow>
         (case amounts p of
            Inl e \<Rightarrow> Inl e
          | Inr s \<Rightarrow>
             (let dt = hd (col_positions (df p) (datetime_col p));
                  amt = hd (col_positions (df p) (amount_col p));
                  sorted = sort_values L (\<lambda>r. of_int (time_of (cell_at r dt))) (rows (df p));
                  ks = map (bucket_of f) ts
              in if ks = [] then Inr []
                 else Inr (map (\<lambda>k.
                        (let tot = group_sum (fl L)
                               (map (\<lambda>r. num_of (cell_at r amt))
                                  (filter (\<lambda>r. bucket_of f (time_of (cell_at r dt)) = k) sorted))
                         in \<lparr>period = k, total_amount = tot, abs_total = \<bar>tot\<bar>\<rparr>))
                      [fold min (tl ks) (hd ks) .. fold max (tl ks) (hd ks)]))))"

text \<open>\<open>DataFrame.head(n)\<close>: the first \<open>n\<close> rows, and for a negative \<open>n\<close> all rows but the
  last \<open>-n\<close>.\<close>

definition head :: "int \<Rightarrow> 'a list \<Rightarrow> 'a list" where
  "head n xs = (if 0 \<le> n then take (nat n) xs else take (length xs - nat (- n)) xs)"

text \<open>
  \<open>top_transactions\<close>. The rows of \<open>base\<close> hold the datetime cell, the amount cell and then
  the category cells, and are sorted by the datetime. When the category label is the
  datetime or the amount label, the selection has a repeated label and \<open>sort_values\<close>
  raises \<open>ValueError\<close>. A descending sort is a sort by the negated amount.
\<close>

definition category_cols :: "FinanceParseResult \<Rightarrow> ustr list" where
  "category_cols p =
     (case category_col p of
        None \<Rightarrow> []
      | Some c \<Rightarrow> if c \<noteq> [] \<and> c \<in> set (columns (df p)) then [c] else [])"

definition base_rows :: "pylib \<Rightarrow> FinanceParseResult \<Rightarrow> cell list list" where
  "base_rows L p =
     sort_values L (\<lambda>r. of_int (time_of (cell_at r 0)))
       (map (\<lambda>r. concat (map (\<lambda>c. map (cell_at r) (col_positions (df p) c))
                           ([datetime_col p, amount_col p] @ category_cols p)))
          (rows (df p)))"

definition top_transactions ::
  "pylib \<Rightarrow> FinanceParseResult \<Rightarrow> int \<Rightarrow> py_error + (cell list list \<times> cell list list)" where
  "top_transactions L p n =
     (case times p of
        Inl e \<Rightarrow> Inl e
      | Inr ts \<Rightarrow>
         (case amounts p of
            Inl e \<Rightarrow> Inl e
          | Inr s \<Rightarrow>
             if datetime_col p = amount_col p \<or> datetime_col p \<in> set (category_cols p) \<or>
                amount_col p \<in> set (category_cols p)
             then Inl ValueError
             else
               (let base = base_rows L p;
                    income = head n (sort_values L (\<lambda>r. - num_of (cell_at r 1))
                                       (filter (\<lambda>r. num_of (cell_at r 1) > 0) base));
                    expense = head n (sort_values L (\<lambda>r. num_of (cell_at r 1))
                                        (filter (\<lambda>r. num_of (cell_at r 1) < 0) base))
                in Inr (income, expense))))"

section \<open>One admissible library\<close>

text \<open>
  An instance of the library record, used to run the model on concrete inputs: binary64
  rounding, a date parser that reads \<open>YYYY-MM-DD\<close> and nothing else, the amount pattern
  (it matches exactly the strings with a decimal digit, of which ASCII has ten), and a
  stable insertion sort.
\<close>

definition days_in_month :: "int \<Rightarrow> int \<Rightarrow> int" where
  "days_in_month y m =
     (if m = 2 then (if y mod 4 = 0 \<and> (y mod 100 \<noteq> 0 \<or> y mod 400 = 0) then 29 else 28)
      else if m = 4 \<or> m = 6 \<or> m = 9 \<or> m = 11 then 30 else 31)"

definition iso_to_datetime :: "cell list \<Rightarrow> cell \<Rightarrow> int option" where
  "iso_to_datetime col c =
     (case c of
        CStr s \<Rightarrow>
          (if length s = 10 \<and> s ! 4 = 45 \<and> s ! 7 = 45 \<and>
              list_all is_digit (take 4 s @ take 2 (drop 5 s) @ drop 8 s)
           then (let y = digits_val (take 4 s); m = digits_val (take 2 (drop 5 s));
                     dd = digits_val (drop 8 s)
                 in if 1 \<le> m \<and> m \<le> 12 \<and> 1 \<le> dd \<and> dd \<le> days_in_month y m
                    then Some (days_from_civil y m dd * NS_PER_DAY) else None)
           else None)
      | _ \<Rightarrow> None)"

definition pylib0 :: pylib where
  "pylib0 = \<lparr>fl = b64, to_datetime = iso_to_datetime,
             amount_re_search = list_ex is_digit, sort_values = sort_key\<rparr>"

text \<open>The grid of the scenario, and a grid with rows in January and March only.\<close>

definition grid1 :: grid where
  "grid1 =
     [[Some (u ''Date''), Some (u ''Amount''), Some (u ''Category'')],
      [Some (u ''2024-01-05''), Some (u ''-50.00''), Some (u ''Food'')],
      [Some (u ''2024-01-06''), Some (u ''200.00''), Some (u ''Salary'')],
      [Some (u ''2024-02-01''), Some (u ''-30.00''), Some (u ''Food'')]]"

definition grid2 :: grid where
  "grid2 =
     [[Some (u ''Date''), Some (u ''Amount'')],
      [Some (u ''2024-01-05''), Some (u ''10'')],
      [Some (u ''2024-01-20''), Some (u ''5'')],
      [Some (u ''2024-03-02''), Some (u ''7'')]]"

text \<open>What the two grids parse to.\<close>

definition parsed1 :: FinanceParseResult where
  "parsed1 =
     \<lparr>df = \<lparr>columns = [u ''Date'', u ''Amount'', u ''Category''],
             rows = [[CTime (days_from_civil 2024 1 5 * NS_PER_DAY), CNum (- 50), CStr (u ''Food'')],
                     [CTime (days_from_civil 2024 1 6 * NS_PER_DAY), CNum 200, CStr (u ''Salary'')],
                     [CTime (days_from_civil 2024 2 1 * NS_PER_DAY), CNum (- 30), CStr (u ''Food'')]]\<rparr>,
      datetime_col = u ''Date'', amount_col = u ''Amount'', category_col = Some (u ''Category'')\<rparr>"

definition parsed2 :: FinanceParseResult where
  "parsed2 =
     \<lparr>df = \<lparr>columns = [u ''Date'', u ''Amount''],
             rows = [[CTime (days_from_civil 2024 1 5 * NS_PER_DAY), CNum 10],
                     [CTime (days_from_civil 2024 1 20 * NS_PER_DAY), CNum 5],
                     [CTime (days_from_civil 2024 3 2 * NS_PER_DAY), CNum 7]]\<rparr>,
      datetime_col = u ''Date'', amount_col = u ''Amount'', category_col = None\<rparr>"

text \<open>The labels, the datetime column and the frame built from the scenario grid.\<close>

definition hdr1 :: "ustr list" where "hdr1 = [u ''Date'', u ''Amount'', u ''Category'']"
definition col1 :: "cell list" where
  "col1 = [CStr (u ''2024-01-05''), CStr (u ''2024-01-06''), CStr (u ''2024-02-01'')]"

definition raw1 :: frame where
  "raw1 = \<lparr>columns = hdr1,
          rows = [[CStr (u ''2024-01-05''), CStr (u ''-50.00''), CStr (u ''Food'')],
                  [CStr (u ''2024-01-06''), CStr (u ''200.00''), CStr (u ''Salary'')],
                  [CStr (u ''2024-02-01''), CStr (u ''-30.00''), CStr (u ''Food'')]]\<rparr>"




text \<open>A grid with two equal amounts, and what it parses to.\<close>

definition grid4 :: grid where
  "grid4 =
     [[Some (u ''Date''), Some (u ''Amount'')],
      [Some (u ''2024-01-01''), Some (u ''5'')],
      [Some (u ''2024-01-02''), Some (u ''5'')],
      [Some (u ''2024-01-03''), Some (u ''-1'')]]"

definition parsed4 :: FinanceParseResult where
  "parsed4 =
     \<lparr>df = \<lparr>columns = [u ''Date'', u ''Amount''],
             rows = [[CTime (days_from_civil 2024 1 1 * NS_PER_DAY), CNum 5],
                     [CTime (days_from_civil 2024 1 2 * NS_PER_DAY), CNum 5],
                     [CTime (days_from_civil 2024 1 3 * NS_PER_DAY), CNum (- 1)]]\<rparr>,
      datetime_col = u ''Date'', amount_col = u ''Amount'', category_col = None\<rparr>"

text \<open>
  A grid with two unnamed header cells (an empty string and \<open>None\<close>), whose columns hold
  values in every row.
\<close>

definition grid5 :: grid where
  "grid5 =
     [[Some (u ''Date''), Some (u ''Amount''), Some [], None],
      [Some (u ''2024-01-05''), Some (u ''10''), Some (u ''a''), Some (u ''x'')],
      [Some (u ''2024-01-06''), Some (u ''20''), Some (u ''b''), Some (u ''y'')],
      [Some (u ''2024-01-07''), Some (u ''30''), Some (u ''c''), Some (u ''z'')]]"

section \<open>Theorems: chunk_text\<close>

lemma chunk_loop_stuck:
  assumes "chunk_loop t0 cs0 ov0 start0 chunks0 = Some y0"
  shows "\<not> (0 < cs0 \<and> cs0 \<le> ov0 \<and> cs0 < int (length t0) \<and> start0 = 0)"
proof (rule chunk_loop.raw_induct
    [where P = "\<lambda>t cs ov start chunks y. \<not> (0 < cs \<and> cs \<le> ov \<and> cs < int (length t) \<and> start = 0)",
      OF _ assms])
  fix f :: "ustr \<Rightarrow> int \<Rightarrow> int \<Rightarrow> int \<Rightarrow> ustr list \<Rightarrow> ustr list option"
  fix t cs ov start chunks y
  assume IH: "\<And>t cs ov start chunks y. f t cs ov start chunks = Some y \<Longrightarrow>
      \<not> (0 < cs \<and> cs \<le> ov \<and> cs < int (length t) \<and> start = 0)"
  assume eq: "(if start < int (length t) then
        (let stop = min (int (length t)) (start + cs);
             chunks' = chunks @ [py_slice t start stop]
         in if stop = int (length t) then Some chunks'
            else f t cs ov (max 0 (stop - ov)) chunks')
      else Some chunks) = Some y"
  show "\<not> (0 < cs \<and> cs \<le> ov \<and> cs < int (length t) \<and> start = 0)"
  proof
    assume a: "0 < cs \<and> cs \<le> ov \<and> cs < int (length t) \<and> start = 0"
    then have m: "min (int (length t)) (start + cs) = cs"
      and n: "max 0 (cs - ov) = 0" by auto
    from a eq have "f t cs ov 0 (chunks @ [py_slice t 0 cs]) = Some y"
      by (simp add: m n Let_def split: if_splits)
    from IH[OF this] a show False by blast
  qed
qed

text \<open>With an overlap as large as the window, the window never advances: on a text longer
  than the window the loop does not return.\<close>

lemma chunk_loop_None:
  "0 < cs \<Longrightarrow> cs \<le> ov \<Longrightarrow> cs < int (length t) \<Longrightarrow> chunk_loop t cs ov 0 chunks = None"
  using chunk_loop_stuck[of t cs ov 0 chunks] by (cases "chunk_loop t cs ov 0 chunks") auto

lemma join_split_abc: "join (u '' '') (split_ws (u ''abc'')) = u ''abc''"
  by code_simp

text \<open>With an overlap smaller than the window the loop returns.\<close>

lemma chunk_loop_terminates:
  "0 \<le> ov \<Longrightarrow> ov < cs \<Longrightarrow> \<exists>y. chunk_loop t cs ov start chunks = Some y"
proof (induction "nat (int (length t) - start)" arbitrary: start chunks rule: less_induct)
  case less
  show ?case
  proof (cases "start < int (length t)")
    case False
    then show ?thesis by (subst chunk_loop.simps) simp
  next
    case True
    show ?thesis
    proof (cases "min (int (length t)) (start + cs) = int (length t)")
      case True
      with \<open>start < int (length t)\<close> show ?thesis by (subst chunk_loop.simps) (simp add: Let_def)
    next
      case False
      then have st: "min (int (length t)) (start + cs) = start + cs" by auto
      let ?s = "max 0 (start + cs - ov)"
      have "nat (int (length t) - ?s) < nat (int (length t) - start)"
        using True less.prems by auto
      from less.hyps[OF this less.prems, of "chunks @ [py_slice t start (start + cs)]"]
      obtain y where "chunk_loop t cs ov ?s (chunks @ [py_slice t start (start + cs)]) = Some y" by blast
      with True False st show ?thesis by (subst chunk_loop.simps) (simp add: Let_def)
    qed
  qed
qed

lemma chunk_text_raises_iff:
  "chunk_text t cs ov = Some (Inl e) \<longleftrightarrow> (cs \<le> 0 \<or> ov < 0) \<and> e = ValueError"
  by (auto simp: chunk_text_def Let_def)

lemma chunk_text_returns:
  "0 < cs \<Longrightarrow> 0 \<le> ov \<Longrightarrow> ov < cs \<Longrightarrow> \<exists>ys. chunk_text t cs ov = Some (Inr ys)"
  using chunk_loop_terminates[of ov cs "join (u '' '') (split_ws t)" 0 "[]"]
  by (auto simp: chunk_text_def Let_def)

text \<open>
  C4. The claim: \<open>chunk_text\<close> raises exactly when \<open>chunk_size \<le> 0\<close> or \<open>overlap < 0\<close>, and for
  every \<open>chunk_size > 0\<close> and \<open>overlap \<ge> 0\<close> it terminates with a finite list of chunks.
  The first half holds (\<open>chunk_text_raises_iff\<close>), and the call returns whenever
  \<open>overlap < chunk_size\<close> (\<open>chunk_text_returns\<close>). The second half fails: the call
  \<open>chunk_text("abc", chunk_size=2, overlap=2)\<close> passes both checks and never returns,
  because \<open>start = max(0, end - overlap)\<close> stays \<open>0\<close>.
\<close>

theorem chunk_text_hangs: "chunk_text (u ''abc'') 2 2 = None"
  by (simp add: chunk_text_def join_split_abc) (simp add: u_def chunk_loop_None)

section \<open>Theorems: the passage index\<close>

lemma reachable_counts: "reachable s \<Longrightarrow> length (index_vectors s) = length (passages s)"
  by (induction rule: reachable.induct) (simp_all add: new_index_def add_def Let_def)

text \<open>
  C9. Every state reachable through construction and \<open>add\<close> has as many vectors as
  passages; \<open>add\<close> with inputs of equal length appends both collections by that length;
  \<open>add\<close> with inputs of different lengths raises \<open>ValueError\<close> and leaves the state as it
  was; \<open>search\<close> leaves the state as it was.
\<close>

theorem index_counts_agree:
  "(reachable s \<longrightarrow> length (index_vectors s) = length (passages s)) \<and>
   (length ps = length vecs \<longrightarrow>
      add s vecs ps =
        (Inr (), s\<lparr>index_vectors := index_vectors s @ vecs, passages := passages s @ ps\<rparr>) \<and>
      length (index_vectors (snd (add s vecs ps))) = length (index_vectors s) + length vecs \<and>
      length (passages (snd (add s vecs ps))) = length (passages s) + length vecs) \<and>
   (length ps \<noteq> length vecs \<longrightarrow> add s vecs ps = (Inl ValueError, s)) \<and>
   snd (search isearch s query_vector top_k) = s"
  by (simp add: reachable_counts add_def search_def Let_def)

theorem index_counts_agree_witness:
  "reachable (snd (add (new_index 2) [[1, 0], [0, 1 :: int]] [u ''p'', u ''q''])) \<and>
   length (index_vectors (snd (add (new_index 2) [[1, 0], [0, 1 :: int]] [u ''p'', u ''q'']))) = 2 \<and>
   length (passages (snd (add (new_index 2) [[1, 0], [0, 1 :: int]] [u ''p'', u ''q'']))) = 2 \<and>
   add (new_index 2) [[1, 0], [0, 1 :: int]] [u ''p''] = (Inl ValueError, new_index 2)"
proof -
  let ?s = "new_index 2 :: int list FaissIndex"
  let ?t = "snd (add ?s [[1, 0], [0, 1]] [u ''p'', u ''q''])"
  have r: "reachable ?t"
    by (rule reachable.step) (rule reachable.init)
  have l: "length [u ''p'', u ''q''] = length [[1, 0], [0, 1 :: int]]" by simp
  have n: "length [u ''p''] \<noteq> length [[1, 0], [0, 1 :: int]]" by simp
  have a: "length (index_vectors ?t) = length (passages ?t)"
    using index_counts_agree [of ?t "[]" "[]" "\<lambda>_ _ _. []" "()" 0] r by blast
  have b: "length (passages ?t) = length (passages ?s) + length [[1, 0], [0, 1 :: int]]"
    using index_counts_agree [of ?s "[u ''p'', u ''q'']" "[[1, 0], [0, 1]]" "\<lambda>_ _ _. []" "()" 0] l
    by blast
  have c: "add ?s [[1, 0], [0, 1]] [u ''p''] = (Inl ValueError, ?s)"
    using index_counts_agree [of ?s "[u ''p'']" "[[1, 0], [0, 1]]" "\<lambda>_ _ _. []" "()" 0] n
    by blast
  have d: "length (passages ?s) = 0" by (simp add: new_index_def)
  from r a b c d show ?thesis by simp
qed

section \<open>Theorems: the chat answer router\<close>

lemma lower_cp_fixed: "d \<in> set (lower_cp c) \<Longrightarrow> lower_cp d = [d]"
  by (auto simp: lower_cp_def split: if_splits)

lemma concat_lower_fixed: "(\<forall>d\<in>set t. lower_cp d = [d]) \<Longrightarrow> concat (map lower_cp t) = t"
  by (induction t) auto

lemma lower_idem: "lower (lower s) = lower s"
proof -
  have "\<forall>d\<in>set (lower s). lower_cp d = [d]"
    by (auto simp: lower_def dest: lower_cp_fixed)
  then show ?thesis using concat_lower_fixed[of "lower s"] by (simp add: lower_def)
qed

text \<open>
  C6. When the normalised question, in lower case, contains one of the keywords
  \<open>summarize\<close>, \<open>summary\<close>, \<open>summarise\<close> and none of the scope markers, the answer is the
  fixed clarifying question with \<open>used_llm = False\<close>, and no oracle is called: the list of
  calls is empty, whatever the provider, the oracles and the retrieved passages are.
\<close>

theorem clarify_scope:
  assumes "\<exists>k\<in>set [u ''summarize'', u ''summary'', u ''summarise''].
             str_in k (lower (normalize_user_question question))"
    and "\<forall>m\<in>set [u ''page'', u ''pages'', u ''section'', u ''chapter'', u ''table'', u ''about'',
                   u ''focus on'', u ''only''].
             \<not> str_in m (lower (normalize_user_question question))"
  shows "answer_with_llm_or_extract env question retrieved = ((CLARIFY_TEXT, False), [])"
proof -
  define ql where "ql = lower (normalize_user_question question)"
  have w: "wants_summary ql"
    using assms(1) unfolding wants_summary_def Let_def ql_def lower_idem list_ex_iff .
  have ite: "\<And>P Q. P \<Longrightarrow> \<not> Q \<Longrightarrow> (if \<not> P then False else \<not> Q)" by simp
  have m: "\<not> (\<exists>m\<in>set [u ''page'', u ''pages'', u ''section'', u ''chapter'', u ''table'', u ''about'',
                   u ''focus on'', u ''only'']. str_in m (lower (normalize_user_question question)))"
    using assms(2) by blast
  have "summary_is_underspecified (normalize_user_question question)"
    unfolding summary_is_underspecified_def Let_def list_ex_iff
    by (rule ite[OF w[unfolded ql_def] m])
  then show ?thesis unfolding answer_with_llm_or_extract_def Let_def by (simp only: if_True)
qed

theorem clarify_scope_witness:
  "answer_with_llm_or_extract
     \<lparr>provider = Some (u ''Gemini''), try_gemini_chat = (\<lambda>_. (Some (u ''an answer''), None)),
      try_openai_chat = (\<lambda>_. None), try_ollama_chat = (\<lambda>_. (None, None)),
      money_re_search = (\<lambda>_. False)\<rparr>
     (u ''summarize'') [\<lparr>rp_text = u ''[page 1] revenue'', rp_score = (1 :: int)\<rparr>]
   = ((CLARIFY_TEXT, False), [])"
proof -
  have a: "\<exists>k\<in>set [u ''summarize'', u ''summary'', u ''summarise''].
             str_in k (lower (normalize_user_question (u ''summarize'')))"
    by code_simp
  have b: "\<forall>m\<in>set [u ''page'', u ''pages'', u ''section'', u ''chapter'', u ''table'', u ''about'',
                   u ''focus on'', u ''only''].
             \<not> str_in m (lower (normalize_user_question (u ''summarize'')))"
    by code_simp
  show ?thesis by (rule clarify_scope [OF a b])
qed

section \<open>Theorems: numeric coercion\<close>

lemma filter_dropWhile_space:
  "(\<And>c. P c \<Longrightarrow> \<not> is_space c) \<Longrightarrow> filter P (dropWhile is_space s) = filter P s"
  by (induction s) auto

lemma filter_strip:
  assumes "\<And>c. P c \<Longrightarrow> \<not> is_space c"
  shows "filter P (strip s) = filter P s"
proof -
  have "filter P (strip s) = rev (filter P (dropWhile is_space (rev (dropWhile is_space s))))"
    by (simp add: strip_def rev_filter)
  also have "\<dots> = rev (filter P (rev (dropWhile is_space s)))"
    using assms by (simp add: filter_dropWhile_space)
  also have "\<dots> = filter P s"
    using assms by (simp add: rev_filter filter_dropWhile_space)
  finally show ?thesis .
qed

lemma mem_strip: "\<not> is_space c \<Longrightarrow> c \<in> set (strip s) \<longleftrightarrow> c \<in> set s"
proof -
  assume a: "\<not> is_space c"
  have "filter (\<lambda>d. d = c) (strip s) = filter (\<lambda>d. d = c) s"
    by (rule filter_strip) (use a in simp)
  then have "filter (\<lambda>d. d = c) (strip s) = [] \<longleftrightarrow> filter (\<lambda>d. d = c) s = []" by simp
  then show ?thesis by (auto simp: filter_empty_conv)
qed

lemma py_float_Nil: "py_float [] = None"
  by (simp add: py_float_def)

lemma to_number_char:
  "to_number rnd (Some s) =
     map_option (\<lambda>v. if 40 \<in> set s \<and> 41 \<in> set s then - \<bar>rnd v\<bar> else rnd v)
       (py_float (filter (\<lambda>c. is_digit c \<or> c = 46 \<or> c = 45 \<or> c = 43) s))"
proof -
  let ?K = "\<lambda>c::int. is_digit c \<or> c = 46 \<or> c = 45 \<or> c = 43"
  have k: "\<And>c. ?K c \<Longrightarrow> \<not> is_space c" by (auto simp: is_digit_def is_space_def)
  let ?K' = "\<lambda>x::int. x \<noteq> 36 \<and> x \<noteq> 44 \<and> (is_digit x \<or> x = 46 \<or> x = 45 \<or> x = 43)"
  have kk: "filter ?K' = filter ?K"
    by (rule ext, rule filter_cong) (auto simp: is_digit_def)
  have f: "filter ?K' (strip s) = filter ?K s"
    unfolding kk by (rule filter_strip) (use k in blast)
  have m: "40 \<in> set (strip s) \<longleftrightarrow> 40 \<in> set s" "41 \<in> set (strip s) \<longleftrightarrow> 41 \<in> set s"
    by (simp_all add: mem_strip is_space_def)
  have e: "strip s = [] \<Longrightarrow> filter ?K s = []"
    using filter_strip[of ?K s] k by simp
  show ?thesis
    by (cases "py_float (filter ?K s)") (auto simp: to_number_def Let_def f m e py_float_Nil)
qed

text \<open>
  C7. \<open>_to_number\<close> maps \<open>"(120.50)"\<close> to \<open>-120.5\<close> and \<open>"$1,234.56"\<close> to the float nearest to
  \<open>1234.56\<close> (with binary64 rounding); for every rounding and every string: a missing cell
  is missing, dollar signs and thousands separators do not change the result, a string
  wrapped in parentheses yields minus the absolute value of what its inside yields, and
  the result is missing exactly when the characters \<open>0-9 . - +\<close> of the string do not form a
  number that \<open>float\<close> parses.
\<close>

theorem to_number_coercion:
  "to_number b64 (Some (u ''(120.50)'')) = Some (- (241 / 2)) \<and>
   to_number b64 (Some (u ''$1,234.56'')) = Some (b64 (123456 / 100)) \<and>
   to_number rnd None = None \<and>
   to_number rnd (Some (filter (\<lambda>c. c \<noteq> 36 \<and> c \<noteq> 44) s)) = to_number rnd (Some s) \<and>
   to_number rnd (Some ([40] @ s @ [41])) = map_option (\<lambda>v. - \<bar>v\<bar>) (to_number rnd (Some s)) \<and>
   (to_number rnd (Some s) = None) =
     (py_float (filter (\<lambda>c. is_digit c \<or> c = 46 \<or> c = 45 \<or> c = 43) s) = None)"
proof -
  let ?K = "\<lambda>c::int. is_digit c \<or> c = 46 \<or> c = 45 \<or> c = 43"
  have a: "to_number b64 (Some (u ''(120.50)'')) = Some (- (241 / 2))" by code_simp
  have b: "to_number b64 (Some (u ''$1,234.56'')) = Some (b64 (123456 / 100))" by code_simp
  have c: "to_number rnd None = None" by (simp add: to_number_def)
  have "filter ?K (filter (\<lambda>c. c \<noteq> 36 \<and> c \<noteq> 44) s) = filter ?K s"
    by (auto simp: is_digit_def intro: filter_cong)
  then have d: "to_number rnd (Some (filter (\<lambda>c. c \<noteq> 36 \<and> c \<noteq> 44) s)) = to_number rnd (Some s)"
    by (simp add: to_number_char)
  have "filter ?K ([40] @ s @ [41]) = filter ?K s" by (simp add: is_digit_def)
  then have e: "to_number rnd (Some ([40] @ s @ [41])) =
      map_option (\<lambda>v. - \<bar>v\<bar>) (to_number rnd (Some s))"
    by (cases "py_float (filter ?K s)") (simp_all add: to_number_char)
  have f: "(to_number rnd (Some s) = None) = (py_float (filter ?K s) = None)"
    by (simp add: to_number_char)
  from a b c d e f show ?thesis by blast
qed

theorem to_number_coercion_witness:
  "to_number b64 (Some ([40] @ u ''$1,200.5'' @ [41])) = Some (- (2401 / 2)) \<and>
   to_number b64 (Some (u ''abc'')) = None"
proof -
  have a: "to_number b64 (Some (u ''$1,200.5'')) = Some (2401 / 2)" by code_simp
  have b: "py_float (filter (\<lambda>c. is_digit c \<or> c = 46 \<or> c = 45 \<or> c = 43) (u ''abc'')) = None"
    by code_simp
  have "to_number b64 (Some ([40] @ u ''$1,200.5'' @ [41])) =
      map_option (\<lambda>v. - \<bar>v\<bar>) (to_number b64 (Some (u ''$1,200.5'')))"
    using to_number_coercion [of b64 "u ''$1,200.5''"] by blast
  then have c: "to_number b64 (Some ([40] @ u ''$1,200.5'' @ [41])) = Some (- (2401 / 2))"
    by (simp add: a)
  have d: "to_number b64 (Some (u ''abc'')) = None"
    using to_number_coercion [of b64 "u ''abc''"] b by blast
  from c d show ?thesis by blast
qed

section \<open>Theorems: table selection\<close>

lemma parse_loop_char:
  "parse_loop L ts (best, n) = Inr res \<Longrightarrow>
     (res = best \<and> (\<forall>t\<in>set ts. candidate L t = Inr None \<or>
         (\<exists>r'. candidate L t = Inr (Some r') \<and> length (rows (df r')) \<le> n))) \<or>
     (\<exists>i r. i < length ts \<and> res = Some r \<and> candidate L (ts ! i) = Inr (Some r) \<and>
         n < length (rows (df r)) \<and>
         (\<forall>j<length ts. candidate L (ts ! j) = Inr None \<or>
            (\<exists>r'. candidate L (ts ! j) = Inr (Some r') \<and>
                length (rows (df r')) \<le> length (rows (df r)) \<and>
                (j < i \<longrightarrow> length (rows (df r')) < length (rows (df r))))))"
proof (induction ts arbitrary: best n)
  case Nil
  then show ?case by simp
next
  case (Cons t ts)
  show ?case
  proof (cases "candidate L t")
    case (Inl e)
    with Cons.prems show ?thesis by simp
  next
    case (Inr c)
    show ?thesis
    proof (cases c)
      case None
      with Inr Cons.prems have p: "parse_loop L ts (best, n) = Inr res" by simp
      from Cons.IH[OF p] show ?thesis
      proof
        assume "res = best \<and> (\<forall>t\<in>set ts. candidate L t = Inr None \<or>
         (\<exists>r'. candidate L t = Inr (Some r') \<and> length (rows (df r')) \<le> n))"
        with Inr None show ?thesis by auto
      next
        assume "\<exists>i r. i < length ts \<and> res = Some r \<and> candidate L (ts ! i) = Inr (Some r) \<and>
         n < length (rows (df r)) \<and>
         (\<forall>j<length ts. candidate L (ts ! j) = Inr None \<or>
            (\<exists>r'. candidate L (ts ! j) = Inr (Some r') \<and>
                length (rows (df r')) \<le> length (rows (df r)) \<and>
                (j < i \<longrightarrow> length (rows (df r')) < length (rows (df r)))))"
        then obtain i r where ir: "i < length ts" "res = Some r" "candidate L (ts ! i) = Inr (Some r)"
          "n < length (rows (df r))"
          "\<forall>j<length ts. candidate L (ts ! j) = Inr None \<or>
            (\<exists>r'. candidate L (ts ! j) = Inr (Some r') \<and>
                length (rows (df r')) \<le> length (rows (df r)) \<and>
                (j < i \<longrightarrow> length (rows (df r')) < length (rows (df r))))" by blast
        have "\<forall>j<length (t # ts). candidate L ((t # ts) ! j) = Inr None \<or>
            (\<exists>r'. candidate L ((t # ts) ! j) = Inr (Some r') \<and>
                length (rows (df r')) \<le> length (rows (df r)) \<and>
                (j < Suc i \<longrightarrow> length (rows (df r')) < length (rows (df r))))"
        proof (intro allI impI)
          fix j assume "j < length (t # ts)"
          then show "candidate L ((t # ts) ! j) = Inr None \<or>
            (\<exists>r'. candidate L ((t # ts) ! j) = Inr (Some r') \<and>
                length (rows (df r')) \<le> length (rows (df r)) \<and>
                (j < Suc i \<longrightarrow> length (rows (df r')) < length (rows (df r))))"
            using ir(5) Inr None by (cases j) auto
        qed
        with ir(1-4) show ?thesis
          by (intro disjI2 exI[of _ "Suc i"] exI[of _ r]) simp
      qed
    next
      case (Some c')
      show ?thesis
      proof (cases "n < length (rows (df c'))")
        case False
        with Inr Some Cons.prems have p: "parse_loop L ts (best, n) = Inr res" by simp
        from Cons.IH[OF p] show ?thesis
        proof
          assume "res = best \<and> (\<forall>t\<in>set ts. candidate L t = Inr None \<or>
           (\<exists>r'. candidate L t = Inr (Some r') \<and> length (rows (df r')) \<le> n))"
          with Inr Some False show ?thesis by auto
        next
          assume "\<exists>i r. i < length ts \<and> res = Some r \<and> candidate L (ts ! i) = Inr (Some r) \<and>
           n < length (rows (df r)) \<and>
           (\<forall>j<length ts. candidate L (ts ! j) = Inr None \<or>
              (\<exists>r'. candidate L (ts ! j) = Inr (Some r') \<and>
                  length (rows (df r')) \<le> length (rows (df r)) \<and>
                  (j < i \<longrightarrow> length (rows (df r')) < length (rows (df r)))))"
          then obtain i r where ir: "i < length ts" "res = Some r" "candidate L (ts ! i) = Inr (Some r)"
            "n < length (rows (df r))"
            "\<forall>j<length ts. candidate L (ts ! j) = Inr None \<or>
              (\<exists>r'. candidate L (ts ! j) = Inr (Some r') \<and>
                  length (rows (df r')) \<le> length (rows (df r)) \<and>
                  (j < i \<longrightarrow> length (rows (df r')) < length (rows (df r))))" by blast
          have "\<forall>j<length (t # ts). candidate L ((t # ts) ! j) = Inr None \<or>
              (\<exists>r'. candidate L ((t # ts) ! j) = Inr (Some r') \<and>
                  length (rows (df r')) \<le> length (rows (df r)) \<and>
                  (j < Suc i \<longrightarrow> length (rows (df r')) < length (rows (df r))))"
          proof (intro allI impI)
            fix j assume "j < length (t # ts)"
            then show "candidate L ((t # ts) ! j) = Inr None \<or>
              (\<exists>r'. candidate L ((t # ts) ! j) = Inr (Some r') \<and>
                  length (rows (df r')) \<le> length (rows (df r)) \<and>
                  (j < Suc i \<longrightarrow> length (rows (df r')) < length (rows (df r))))"
              using ir(4,5) Inr Some False by (cases j) auto
          qed
          with ir(1-4) show ?thesis
            by (intro disjI2 exI[of _ "Suc i"] exI[of _ r]) simp
        qed
      next
        case True
        with Inr Some Cons.prems
        have p: "parse_loop L ts (Some c', length (rows (df c'))) = Inr res" by simp
        from Cons.IH[OF p] show ?thesis
        proof
          assume a: "res = Some c' \<and> (\<forall>t\<in>set ts. candidate L t = Inr None \<or>
           (\<exists>r'. candidate L t = Inr (Some r') \<and> length (rows (df r')) \<le> length (rows (df c'))))"
          have "\<forall>j<length (t # ts). candidate L ((t # ts) ! j) = Inr None \<or>
              (\<exists>r'. candidate L ((t # ts) ! j) = Inr (Some r') \<and>
                  length (rows (df r')) \<le> length (rows (df c')) \<and>
                  (j < 0 \<longrightarrow> length (rows (df r')) < length (rows (df c'))))"
          proof (intro allI impI)
            fix j assume "j < length (t # ts)"
            then show "candidate L ((t # ts) ! j) = Inr None \<or>
              (\<exists>r'. candidate L ((t # ts) ! j) = Inr (Some r') \<and>
                  length (rows (df r')) \<le> length (rows (df c')) \<and>
                  (j < 0 \<longrightarrow> length (rows (df r')) < length (rows (df c'))))"
              using a Inr Some by (cases j) auto
          qed
          with a True Inr Some show ?thesis
            by (intro disjI2 exI[of _ 0] exI[of _ c']) simp
        next
          assume "\<exists>i r. i < length ts \<and> res = Some r \<and> candidate L (ts ! i) = Inr (Some r) \<and>
           length (rows (df c')) < length (rows (df r)) \<and>
           (\<forall>j<length ts. candidate L (ts ! j) = Inr None \<or>
              (\<exists>r'. candidate L (ts ! j) = Inr (Some r') \<and>
                  length (rows (df r')) \<le> length (rows (df r)) \<and>
                  (j < i \<longrightarrow> length (rows (df r')) < length (rows (df r)))))"
          then obtain i r where ir: "i < length ts" "res = Some r" "candidate L (ts ! i) = Inr (Some r)"
            "length (rows (df c')) < length (rows (df r))"
            "\<forall>j<length ts. candidate L (ts ! j) = Inr None \<or>
              (\<exists>r'. candidate L (ts ! j) = Inr (Some r') \<and>
                  length (rows (df r')) \<le> length (rows (df r)) \<and>
                  (j < i \<longrightarrow> length (rows (df r')) < length (rows (df r))))" by blast
          have "\<forall>j<length (t # ts). candidate L ((t # ts) ! j) = Inr None \<or>
              (\<exists>r'. candidate L ((t # ts) ! j) = Inr (Some r') \<and>
                  length (rows (df r')) \<le> length (rows (df r)) \<and>
                  (j < Suc i \<longrightarrow> length (rows (df r')) < length (rows (df r))))"
          proof (intro allI impI)
            fix j assume "j < length (t # ts)"
            then show "candidate L ((t # ts) ! j) = Inr None \<or>
              (\<exists>r'. candidate L ((t # ts) ! j) = Inr (Some r') \<and>
                  length (rows (df r')) \<le> length (rows (df r)) \<and>
                  (j < Suc i \<longrightarrow> length (rows (df r')) < length (rows (df r))))"
              using ir(4,5) Inr Some by (cases j) auto
          qed
          with ir(1-4) True show ?thesis
            by (intro disjI2 exI[of _ "Suc i"] exI[of _ r]) simp
        qed
      qed
    qed
  qed
qed

lemma first_match_Some: "first_match f xs = Some y \<Longrightarrow> \<exists>x\<in>set xs. f x = Some y"
  by (induction xs) (auto split: option.splits)

lemma set_dedupe: "set (dedupe seen xs) \<subseteq> set xs"
  by (induction xs arbitrary: seen) auto

lemma best_col_mem: "best_col cols hints = Some c \<Longrightarrow> c \<in> set cols"
proof -
  assume "best_col cols hints = Some c"
  then obtain h where
    "map_option fst (find (\<lambda>(c, nc). str_in h nc) (map (\<lambda>c. (c, normalize_col c)) (dedupe [] cols))) = Some c"
    unfolding best_col_def Let_def by (blast dest: first_match_Some)
  then obtain p where "find (\<lambda>(c, nc). str_in h nc) (map (\<lambda>c. (c, normalize_col c)) (dedupe [] cols)) = Some p"
    and "fst p = c" by auto
  then have "p \<in> set (map (\<lambda>c. (c, normalize_col c)) (dedupe [] cols))"
    by (auto simp: find_Some_iff)
  with \<open>fst p = c\<close> show ?thesis using set_dedupe[of "[]" cols] by auto
qed

lemma category_loop_mem:
  "category_loop L d cs st = Inr (Some c, sc) \<Longrightarrow> c \<in> set cs \<or> fst st = Some c"
proof (induction cs arbitrary: st)
  case Nil
  then show ?case by simp
next
  case (Cons a cs)
  obtain b s where st: "st = (b, s)" by (cases st)
  from Cons.prems show ?case
    unfolding st by (auto simp: Let_def split: if_splits dest: Cons.IH)
qed

lemma detect_category_excl:
  "detect_category_col L d ex = Inr (Some c) \<Longrightarrow> c \<notin> set ex \<and> c \<in> set (columns d)"
proof -
  assume a: "detect_category_col L d ex = Inr (Some c)"
  let ?cols = "filter (\<lambda>c. c \<notin> set ex) (columns d)"
  have "c \<in> set ?cols"
  proof (cases "truthy (best_col ?cols CATEGORY_HINTS)")
    case True
    with a have "best_col ?cols CATEGORY_HINTS = Some c"
      by (simp add: detect_category_col_def Let_def)
    then show ?thesis by (rule best_col_mem)
  next
    case False
    with a obtain sc where "category_loop L d ?cols (None, 0) = Inr (Some c, sc)"
      by (auto simp: detect_category_col_def Let_def split: sum.splits)
    from category_loop_mem[OF this] show ?thesis by simp
  qed
  then show ?thesis by simp
qed

lemma col_positions_rows [simp]: "col_positions (d\<lparr>rows := x\<rparr>) c = col_positions d c"
  by (simp add: col_positions_def)

lemma columns_map_col [simp]: "columns (map_col d c f) = columns d"
  by (simp add: map_col_def)

lemma col_positions_map_col [simp]: "col_positions (map_col d c f) c' = col_positions d c'"
  by (simp add: col_positions_def)

lemma candidate_Some:
  assumes "candidate L t = Inr (Some r)"
  shows "2 \<le> length t"
    and "2 \<le> length (filter (\<lambda>h. h \<noteq> []) (map (\<lambda>x. strip (case x of None \<Rightarrow> [] | Some s \<Rightarrow> s)) (hd t)))"
    and "3 \<le> length (rows (df r))"
    and "datetime_col r \<noteq> []" and "amount_col r \<noteq> []"
    and "\<forall>row\<in>set (rows (df r)). \<forall>i\<in>set (col_positions (df r) (datetime_col r) @
            col_positions (df r) (amount_col r)). cell_at row i \<noteq> CNone"
    and "\<forall>c. category_col r = Some c \<longrightarrow> c \<noteq> datetime_col r \<and> c \<noteq> amount_col r"
  using assms
  by (auto simp: candidate_def Let_def truthy_def list_all_iff
      split: if_splits sum.splits option.splits dest!: detect_category_excl)

lemma parse_loop_all_None:
  "\<forall>t\<in>set ts. candidate L t = Inr None \<Longrightarrow> parse_loop L ts (best, n) = Inr best"
  by (induction ts) auto

lemma parse_loop_total:
  "\<forall>t\<in>set ts. \<exists>c. candidate L t = Inr c \<Longrightarrow> \<exists>res. parse_loop L ts (best, n) = Inr res"
proof (induction ts arbitrary: best n)
  case Nil
  then show ?case by simp
next
  case (Cons t ts)
  then obtain c where c: "candidate L t = Inr c" by auto
  from Cons have "\<And>b m. \<exists>res. parse_loop L ts (b, m) = Inr res" by simp
  then show ?case using c by (cases c) auto
qed

lemma parse_result_is_candidate:
  assumes "parse_financial_tables L tables = Inr (Some r)"
  shows "\<exists>i<length tables. candidate L (tables ! i) = Inr (Some r)"
  using parse_loop_char[OF assms[unfolded parse_financial_tables_def]] by auto

lemma candidate_grid1: "candidate pylib0 grid1 = Inr (Some parsed1)"
  by code_simp

lemma candidate_grid2: "candidate pylib0 grid2 = Inr (Some parsed2)"
  by code_simp

lemma parse_three: "parse_financial_tables pylib0 [grid2, grid1, grid1] = Inr (Some parsed2)"
  by (simp add: parse_financial_tables_def candidate_grid1 candidate_grid2 parsed1_def parsed2_def)

text \<open>
  What \<open>parse_financial_tables\<close> returns when it returns, for every library and every list
  of grids. It returns \<open>None\<close> exactly when no grid yields a candidate, and otherwise the
  candidate of some grid \<open>i\<close> whose row count is at least that of every other candidate
  and greater than that of every candidate of an earlier grid (ties keep the first). It
  returns, and not raises, when no grid makes the data-frame library raise. A grid yields
  a candidate only if it has at least two rows, at least two non-empty header cells,
  datetime and amount columns, and at least three rows left whose datetime and amount
  cells are present after coercion.
\<close>

lemma parse_returns_first_best:
  "((\<forall>t\<in>set tables. candidate L t = Inr None) \<longrightarrow> parse_financial_tables L tables = Inr None) \<and>
   ((\<forall>t\<in>set tables. \<exists>c. candidate L t = Inr c) \<longrightarrow> (\<exists>res. parse_financial_tables L tables = Inr res)) \<and>
   (\<forall>res. parse_financial_tables L tables = Inr res \<longrightarrow>
      ((res = None) = (\<forall>t\<in>set tables. candidate L t = Inr None)) \<and>
      (\<forall>r. res = Some r \<longrightarrow>
         (\<exists>i<length tables. candidate L (tables ! i) = Inr (Some r) \<and>
            (\<forall>j<length tables. \<forall>r'. candidate L (tables ! j) = Inr (Some r') \<longrightarrow>
               length (rows (df r')) \<le> length (rows (df r)) \<and>
               (j < i \<longrightarrow> length (rows (df r')) < length (rows (df r))))))) \<and>
   (\<forall>t r. candidate L t = Inr (Some r) \<longrightarrow>
      2 \<le> length t \<and>
      2 \<le> length (filter (\<lambda>h. h \<noteq> [])
                   (map (\<lambda>x. strip (case x of None \<Rightarrow> [] | Some s \<Rightarrow> s)) (hd t))) \<and>
      3 \<le> length (rows (df r)) \<and> datetime_col r \<noteq> [] \<and> amount_col r \<noteq> [] \<and>
      (\<forall>row\<in>set (rows (df r)). \<forall>i\<in>set (col_positions (df r) (datetime_col r) @
            col_positions (df r) (amount_col r)). cell_at row i \<noteq> CNone))"
proof (intro conjI allI impI)
  assume "\<forall>t\<in>set tables. candidate L t = Inr None"
  then show "parse_financial_tables L tables = Inr None"
    by (simp add: parse_financial_tables_def parse_loop_all_None)
next
  assume "\<forall>t\<in>set tables. \<exists>c. candidate L t = Inr c"
  then show "\<exists>res. parse_financial_tables L tables = Inr res"
    by (simp add: parse_financial_tables_def parse_loop_total)
next
  fix res assume p: "parse_financial_tables L tables = Inr res"
  note ch = parse_loop_char[OF p[unfolded parse_financial_tables_def]]
  show "(res = None) = (\<forall>t\<in>set tables. candidate L t = Inr None)"
  proof
    assume "res = None"
    with ch have "\<forall>t\<in>set tables. candidate L t = Inr None \<or>
         (\<exists>r'. candidate L t = Inr (Some r') \<and> length (rows (df r')) \<le> 0)" by auto
    then show "\<forall>t\<in>set tables. candidate L t = Inr None"
      using candidate_Some(3) by fastforce
  next
    assume "\<forall>t\<in>set tables. candidate L t = Inr None"
    with p show "res = None"
      by (simp add: parse_financial_tables_def parse_loop_all_None)
  qed
next
  fix res r assume p: "parse_financial_tables L tables = Inr res" and r: "res = Some r"
  from parse_loop_char[OF p[unfolded parse_financial_tables_def]] r
  obtain i where i: "i < length tables" "candidate L (tables ! i) = Inr (Some r)"
    "\<forall>j<length tables. candidate L (tables ! j) = Inr None \<or>
            (\<exists>r'. candidate L (tables ! j) = Inr (Some r') \<and>
                length (rows (df r')) \<le> length (rows (df r)) \<and>
                (j < i \<longrightarrow> length (rows (df r')) < length (rows (df r))))"
    by auto
  from i(3) have "\<forall>j<length tables. \<forall>r'. candidate L (tables ! j) = Inr (Some r') \<longrightarrow>
               length (rows (df r')) \<le> length (rows (df r)) \<and>
               (j < i \<longrightarrow> length (rows (df r')) < length (rows (df r)))"
    by fastforce
  with i(1,2) show "\<exists>i<length tables. candidate L (tables ! i) = Inr (Some r) \<and>
            (\<forall>j<length tables. \<forall>r'. candidate L (tables ! j) = Inr (Some r') \<longrightarrow>
               length (rows (df r')) \<le> length (rows (df r)) \<and>
               (j < i \<longrightarrow> length (rows (df r')) < length (rows (df r))))" by blast
qed (use candidate_Some in blast)+

lemma parse_first_best_example:
  "parse_financial_tables pylib0 [grid2, grid1, grid1] = Inr (Some parsed2) \<and>
   (\<exists>i<length [grid2, grid1, grid1].
      candidate pylib0 ([grid2, grid1, grid1] ! i) = Inr (Some parsed2) \<and>
      (\<forall>j<length [grid2, grid1, grid1].
         \<forall>r'. candidate pylib0 ([grid2, grid1, grid1] ! j) = Inr (Some r') \<longrightarrow>
         length (rows (df r')) \<le> length (rows (df parsed2)) \<and>
         (j < i \<longrightarrow> length (rows (df r')) < length (rows (df parsed2)))))"
  using parse_returns_first_best [of "[grid2, grid1, grid1]" pylib0] parse_three
  by blast

text \<open>
  C2 does not hold for every list of grids: the call can raise instead of returning the
  best surviving candidate. In a grid with two unnamed header cells both columns get the
  label \<open>''\<close>; \<open>df['']\<close> is then a data frame and not a series, its score in
  \<open>_detect_category_col\<close> is a series, and the comparison \<open>score > best_score\<close> raises
  \<open>ValueError\<close>. So the call on the scenario grid followed by such a grid raises, although
  the scenario grid survives: alone it is parsed to \<open>parsed1\<close>.
\<close>

theorem parse_raises_on_unnamed_columns:
  "parse_financial_tables pylib0 [grid1] = Inr (Some parsed1) \<and>
   parse_financial_tables pylib0 [grid5] = Inl ValueError \<and>
   parse_financial_tables pylib0 [grid1, grid5] = Inl ValueError"
  by code_simp

text \<open>
  C10. Whenever \<open>parse_financial_tables\<close> returns a result with a category column, that
  column is neither the datetime column nor the amount column of the result.
\<close>

theorem category_differs:
  assumes "parse_financial_tables L tables = Inr (Some r)" and "category_col r = Some c"
  shows "c \<noteq> datetime_col r \<and> c \<noteq> amount_col r"
proof -
  from parse_result_is_candidate[OF assms(1)]
  obtain i where "candidate L (tables ! i) = Inr (Some r)" by blast
  from candidate_Some(7)[OF this] assms(2) show ?thesis by blast
qed

theorem category_differs_witness:
  "parse_financial_tables pylib0 [grid1] = Inr (Some parsed1) \<and>
   category_col parsed1 = Some (u ''Category'') \<and>
   u ''Category'' \<noteq> datetime_col parsed1 \<and> u ''Category'' \<noteq> amount_col parsed1"
proof -
  have p: "parse_financial_tables pylib0 [grid1] = Inr (Some parsed1)"
    by (simp add: parse_financial_tables_def candidate_grid1 parsed1_def)
  have c: "category_col parsed1 = Some (u ''Category'')" by (simp add: parsed1_def)
  from category_differs [OF p c] p c show ?thesis by blast
qed
section \<open>Theorems: the scenario\<close>

lemma hints1:
  "best_col hdr1 DATE_HINTS = Some (u ''Date'')"
  "best_col hdr1 AMOUNT_HINTS = Some (u ''Amount'')"
  "best_col (filter (\<lambda>c. c \<noteq> u ''Date'' \<and> c \<noteq> u ''Amount'') hdr1) CATEGORY_HINTS = Some (u ''Category'')"
  "u ''Date'' \<noteq> []" "u ''Amount'' \<noteq> []" "u ''Category'' \<noteq> []"
  by (code_simp, code_simp, code_simp, code_simp, code_simp, code_simp)

lemma pos1:
  "columns d = hdr1 \<Longrightarrow> col_positions d (u ''Date'') = [0]"
  "columns d = hdr1 \<Longrightarrow> col_positions d (u ''Amount'') = [1]"
  "columns d = hdr1 \<Longrightarrow> col_positions d (u ''Category'') = [2]"
  by (simp_all add: col_positions_def hdr1_def u_def upt_rec)

lemma frame1:
  "make_frame (map (\<lambda>x. strip (case x of None \<Rightarrow> [] | Some s \<Rightarrow> s)) (hd grid1)) (tl grid1) =
     Inr \<lparr>columns = hdr1,
          rows = [[CStr (u ''2024-01-05''), CStr (u ''-50.00''), CStr (u ''Food'')],
                  [CStr (u ''2024-01-06''), CStr (u ''200.00''), CStr (u ''Salary'')],
                  [CStr (u ''2024-02-01''), CStr (u ''-30.00''), CStr (u ''Food'')]]\<rparr>"
  "length grid1 = 4"
  "length (filter (\<lambda>h. h \<noteq> []) (map (\<lambda>x. strip (case x of None \<Rightarrow> [] | Some s \<Rightarrow> s)) (hd grid1))) = 3"
  "length (filter ((\<lambda>h. h \<noteq> []) \<circ> (\<lambda>x. strip (case x of None \<Rightarrow> [] | Some s \<Rightarrow> s))) (hd grid1)) = 3"
  by (code_simp, code_simp, code_simp, code_simp)

lemma nums1:
  "to_number rnd (Some (u ''-50.00'')) = Some (rnd (- 50))"
  "to_number rnd (Some (u ''200.00'')) = Some (rnd 200)"
  "to_number rnd (Some (u ''-30.00'')) = Some (rnd (- 30))"
proof -
  let ?K = "\<lambda>c::int. is_digit c \<or> c = 46 \<or> c = 45 \<or> c = 43"
  have a: "py_float (filter ?K (u ''-50.00'')) = Some (- 50)"
    "py_float (filter ?K (u ''200.00'')) = Some 200"
    "py_float (filter ?K (u ''-30.00'')) = Some (- 30)"
    by (code_simp, code_simp, code_simp)
  have b: "40 \<notin> set (u ''-50.00'')" "40 \<notin> set (u ''200.00'')" "40 \<notin> set (u ''-30.00'')"
    by (code_simp, code_simp, code_simp)
  show "to_number rnd (Some (u ''-50.00'')) = Some (rnd (- 50))"
    "to_number rnd (Some (u ''200.00'')) = Some (rnd 200)"
    "to_number rnd (Some (u ''-30.00'')) = Some (rnd (- 30))"
    by (simp_all add: to_number_char a b)
qed


lemma neq1:
  "u ''Date'' \<noteq> u ''Amount''" "u ''Amount'' \<noteq> u ''Date''"
  "u ''Category'' \<noteq> u ''Date''" "u ''Category'' \<noteq> u ''Amount''"
  "u ''Date'' \<noteq> u ''Category''" "u ''Amount'' \<noteq> u ''Category''"
  by (code_simp, code_simp, code_simp, code_simp, code_simp, code_simp)

lemma map_col3:
  "columns d = [a, b, c] \<Longrightarrow>
   map_col d x f = d\<lparr>rows := map (\<lambda>r. [if a = x then f (cell_at r 0) else cell_at r 0,
                                        if b = x then f (cell_at r 1) else cell_at r 1,
                                        if c = x then f (cell_at r 2) else cell_at r 2]) (rows d)\<rparr>"
  by (simp add: map_col_def upt_rec numeral_2_eq_2)

lemma raw1_simps:
  "columns raw1 = hdr1"
  "raw1\<lparr>rows := filter (\<lambda>r. list_ex (\<lambda>c. c \<noteq> CNone) r) (rows raw1)\<rparr> = raw1"
  "length (rows raw1) = 3"
  "map (\<lambda>r. cell_at r 0) (rows raw1) = col1"
  by (simp_all add: raw1_def col1_def cell_at_def)

lemma detect1:
  "detect_datetime_col L raw1 = Inr (Some (u ''Date''))"
  "detect_amount_col L raw1 = Inr (Some (u ''Amount''))"
  by (simp_all add: detect_datetime_col_def detect_amount_col_def Let_def raw1_simps hints1 truthy_def)

lemma coerce1:
  assumes dt: "to_datetime L col1 (CStr (u ''2024-01-05'')) = Some (days_from_civil 2024 1 5 * NS_PER_DAY)"
      "to_datetime L col1 (CStr (u ''2024-01-06'')) = Some (days_from_civil 2024 1 6 * NS_PER_DAY)"
      "to_datetime L col1 (CStr (u ''2024-02-01'')) = Some (days_from_civil 2024 2 1 * NS_PER_DAY)"
    and fl: "fl L (- 50) = - 50" "fl L 200 = 200" "fl L (- 30) = - 30"
  shows "map_col (map_col raw1 (u ''Date'') (coerce_datetime L col1)) (u ''Amount'')
           (coerce_amount (fl L)) = df parsed1"
proof -
  have c: "columns raw1 = [u ''Date'', u ''Amount'', u ''Category'']"
    by (simp add: raw1_def hdr1_def)
  have 1: "map_col raw1 (u ''Date'') (coerce_datetime L col1) =
      \<lparr>columns = hdr1,
       rows = [[CTime (days_from_civil 2024 1 5 * NS_PER_DAY), CStr (u ''-50.00''), CStr (u ''Food'')],
               [CTime (days_from_civil 2024 1 6 * NS_PER_DAY), CStr (u ''200.00''), CStr (u ''Salary'')],
               [CTime (days_from_civil 2024 2 1 * NS_PER_DAY), CStr (u ''-30.00''), CStr (u ''Food'')]]\<rparr>"
    unfolding map_col3[OF c]
    by (simp add: neq1 raw1_def cell_at_def coerce_datetime_def dt)
  have c1: "columns \<lparr>columns = hdr1,
       rows = [[CTime (days_from_civil 2024 1 5 * NS_PER_DAY), CStr (u ''-50.00''), CStr (u ''Food'')],
               [CTime (days_from_civil 2024 1 6 * NS_PER_DAY), CStr (u ''200.00''), CStr (u ''Salary'')],
               [CTime (days_from_civil 2024 2 1 * NS_PER_DAY), CStr (u ''-30.00''), CStr (u ''Food'')]]\<rparr>
      = [u ''Date'', u ''Amount'', u ''Category'']"
    by (simp add: hdr1_def)
  show ?thesis
    unfolding 1 map_col3[OF c1]
    by (simp add: neq1 cell_at_def coerce_amount_def nums1 fl parsed1_def hdr1_def)
qed

lemma parsed1_simps:
  "columns (df parsed1) = hdr1"
  "datetime_col parsed1 = u ''Date''" "amount_col parsed1 = u ''Amount''"
  "category_col parsed1 = Some (u ''Category'')"
  "length (rows (df parsed1)) = 3"
  by (simp_all add: parsed1_def hdr1_def)

lemma keep1:
  "filter (\<lambda>r. cell_at r 0 \<noteq> CNone \<and> cell_at r (Suc 0) \<noteq> CNone) (rows (df parsed1)) =
     rows (df parsed1)"
  by (simp add: parsed1_def cell_at_def)

lemma cat1: "detect_category_col L (df parsed1) [u ''Date'', u ''Amount''] = Inr (Some (u ''Category''))"
  by (simp add: detect_category_col_def Let_def parsed1_simps hints1 truthy_def)

lemma candidate1:
  assumes dt: "to_datetime L col1 (CStr (u ''2024-01-05'')) = Some (days_from_civil 2024 1 5 * NS_PER_DAY)"
      "to_datetime L col1 (CStr (u ''2024-01-06'')) = Some (days_from_civil 2024 1 6 * NS_PER_DAY)"
      "to_datetime L col1 (CStr (u ''2024-02-01'')) = Some (days_from_civil 2024 2 1 * NS_PER_DAY)"
    and fl: "fl L (- 50) = - 50" "fl L 200 = 200" "fl L (- 30) = - 30"
  shows "candidate L grid1 = Inr (Some parsed1)"
proof -
  have p: "col_positions raw1 (u ''Date'') = [0]" "col_positions raw1 (u ''Amount'') = [1]"
    "col_positions (df parsed1) (u ''Date'') = [0]" "col_positions (df parsed1) (u ''Amount'') = [1]"
    by (simp_all add: pos1 raw1_simps parsed1_simps)
  have e: "\<lparr>df = df parsed1, datetime_col = u ''Date'', amount_col = u ''Amount'',
            category_col = Some (u ''Category'')\<rparr> = parsed1"
    by (simp add: parsed1_def)
  show ?thesis
    unfolding candidate_def
    by (simp add: frame1 raw1_def[symmetric] raw1_simps detect1 truthy_def hints1 p
        coerce1[OF dt fl] keep1 cat1 e Let_def parsed1_simps)
qed

lemma sorted_perm_unique:
  assumes m: "mset ys = mset xs" and sy: "sorted (map k ys)" and sx: "sorted (map k xs)"
    and d: "distinct (map k xs)"
  shows "ys = xs"
proof -
  have mm: "mset (map k ys) = mset (map k xs)" using m by simp
  then have dy: "distinct (map k ys)" using d by (metis mset_eq_imp_distinct_iff)
  have "set (map k ys) = set (map k xs)" using mm by (rule mset_eq_setD)
  with sy sx dy d have e: "map k ys = map k xs" by (simp add: sorted_distinct_set_unique)
  have "set ys = set xs" using m by (rule mset_eq_setD)
  moreover have "inj_on k (set xs)" using d by (simp add: distinct_map)
  ultimately have "inj_on k (set ys \<union> set xs)" by simp
  with e show ?thesis by (simp add: inj_on_map_eq_map)
qed

lemma np_sum_short:
  "length xs < 8 \<Longrightarrow> np_sum rnd xs = add_seq rnd 0 xs"
  by (subst np_sum_def, subst pairwise_sum.simps) (simp add: add_seq_def)

lemma amounts1: "amounts parsed1 = Inr [- 50, 200, - 30]"
  by code_simp

lemma totals1:
  assumes "\<forall>x\<in>set [- 80, - 50, 40, 120, 150, 200]. fl L x = x"
  shows "totals L parsed1 =
     Inr \<lparr>t_rows = 3, t_sum = 120, t_income_sum_pos = 200, t_expense_sum_neg = - 80,
          t_mean = Some 40\<rparr>"
  using assms by (simp add: totals_def amounts1 np_sum_short add_seq_def parsed1_simps)

lemma times1:
  "times parsed1 = Inr [1704412800000000000, 1704499200000000000, 1706745600000000000]"
  "bucket_of M 1704412800000000000 = 24288"
  "bucket_of M 1704499200000000000 = 24288"
  "bucket_of M 1706745600000000000 = 24289"
  "[24288 .. 24289 :: int] = [24288, 24289]"
  by (code_simp, code_simp, code_simp, code_simp, code_simp)

lemma rows1_sorted:
  "sorted (map (\<lambda>r. of_int (time_of (cell_at r 0)) :: rat) (rows (df parsed1)))"
  "distinct (map (\<lambda>r. of_int (time_of (cell_at r 0)) :: rat) (rows (df parsed1)))"
  by (code_simp, code_simp)

lemma buckets1:
  "map (\<lambda>r. num_of (cell_at r (Suc 0)))
     (filter (\<lambda>r. bucket_of M (time_of (cell_at r 0)) = 24288) (rows (df parsed1))) = [- 50, 200]"
  "map (\<lambda>r. num_of (cell_at r (Suc 0)))
     (filter (\<lambda>r. bucket_of M (time_of (cell_at r 0)) = 24289) (rows (df parsed1))) = [- 30]"
  by (code_simp, code_simp)

lemma agg1:
  assumes fl: "\<forall>x\<in>set [- 50, - 30, 150, 200]. fl L x = x"
    and srt: "\<forall>key rs. mset (sort_values L key rs) = mset rs \<and>
                        sorted (map key (sort_values L key rs))"
  shows "aggregate_finance L parsed1 M =
     Inr [\<lparr>period = 24288, total_amount = 150, abs_total = 150\<rparr>,
          \<lparr>period = 24289, total_amount = - 30, abs_total = 30\<rparr>]"
proof -
  have p: "col_positions (df parsed1) (datetime_col parsed1) = [0]"
    "col_positions (df parsed1) (amount_col parsed1) = [1]"
    by (simp_all add: pos1 parsed1_simps)
  have s: "sort_values L (\<lambda>r. of_int (time_of (cell_at r 0))) (rows (df parsed1)) = rows (df parsed1)"
    using srt rows1_sorted by (intro sorted_perm_unique[where k = "\<lambda>r. of_int (time_of (cell_at r 0)) :: rat"]) auto
  show ?thesis
    using fl
    by (simp add: aggregate_finance_def times1 amounts1 p s buckets1 group_sum_def kahan_step_def
        rnd0_def Let_def)
qed

text \<open>
  C1. For the grid of the scenario, with any library that parses its three dates as
  2024-01-05, 2024-01-06 and 2024-02-01, rounds the seven numbers that occur to themselves
  and sorts: \<open>parse_financial_tables\<close> returns the frame with \<open>datetime_col = "Date"\<close>,
  \<open>amount_col = "Amount"\<close>, \<open>category_col = "Category"\<close>; \<open>totals\<close> of it is
  \<open>rows 3, sum 120, income_sum_pos 200, expense_sum_neg -80\<close> (and mean 40); and the
  monthly \<open>aggregate_finance\<close> is the two buckets January 2024 with total 150 and February
  2024 with total -30, in that order.
\<close>

theorem scenario:
  assumes "to_datetime L col1 (CStr (u ''2024-01-05'')) = Some (days_from_civil 2024 1 5 * NS_PER_DAY)"
      and "to_datetime L col1 (CStr (u ''2024-01-06'')) = Some (days_from_civil 2024 1 6 * NS_PER_DAY)"
      and "to_datetime L col1 (CStr (u ''2024-02-01'')) = Some (days_from_civil 2024 2 1 * NS_PER_DAY)"
      and "\<forall>x\<in>set [- 80, - 50, - 30, 40, 120, 150, 200]. fl L x = x"
      and "\<forall>key rs. mset (sort_values L key rs) = mset rs \<and>
                      sorted (map key (sort_values L key rs))"
  shows "parse_financial_tables L [grid1] = Inr (Some parsed1) \<and>
         datetime_col parsed1 = u ''Date'' \<and> amount_col parsed1 = u ''Amount'' \<and>
         category_col parsed1 = Some (u ''Category'') \<and>
         totals L parsed1 =
           Inr \<lparr>t_rows = 3, t_sum = 120, t_income_sum_pos = 200, t_expense_sum_neg = - 80,
                t_mean = Some 40\<rparr> \<and>
         aggregate_finance L parsed1 M =
           Inr [\<lparr>period = 12 * 2024 + (1 - 1), total_amount = 150, abs_total = 150\<rparr>,
                \<lparr>period = 12 * 2024 + (2 - 1), total_amount = - 30, abs_total = 30\<rparr>]"
proof -
  have c: "candidate L grid1 = Inr (Some parsed1)"
    using assms(1-4) by (intro candidate1) simp_all
  have p: "parse_financial_tables L [grid1] = Inr (Some parsed1)"
    by (simp add: parse_financial_tables_def c parsed1_simps)
  have t: "totals L parsed1 =
           Inr \<lparr>t_rows = 3, t_sum = 120, t_income_sum_pos = 200, t_expense_sum_neg = - 80,
                t_mean = Some 40\<rparr>"
    using assms(4) by (intro totals1) simp
  have a: "aggregate_finance L parsed1 M =
           Inr [\<lparr>period = 24288, total_amount = 150, abs_total = 150\<rparr>,
                \<lparr>period = 24289, total_amount = - 30, abs_total = 30\<rparr>]"
    using assms(4,5) by (intro agg1) simp_all
  from p t a show ?thesis by (simp add: parsed1_simps)
qed

lemma pylib0_sorts:
  "\<forall>key rs. mset (sort_values pylib0 key rs) = mset rs \<and>
             sorted (map key (sort_values pylib0 key rs))"
  by (simp add: pylib0_def)

theorem scenario_witness:
  "parse_financial_tables pylib0 [grid1] = Inr (Some parsed1) \<and>
   totals pylib0 parsed1 =
     Inr \<lparr>t_rows = 3, t_sum = 120, t_income_sum_pos = 200, t_expense_sum_neg = - 80,
          t_mean = Some 40\<rparr> \<and>
   aggregate_finance pylib0 parsed1 M =
     Inr [\<lparr>period = 24288, total_amount = 150, abs_total = 150\<rparr>,
          \<lparr>period = 24289, total_amount = - 30, abs_total = 30\<rparr>]"
proof -
  have d: "to_datetime pylib0 col1 (CStr (u ''2024-01-05'')) = Some (days_from_civil 2024 1 5 * NS_PER_DAY)"
    "to_datetime pylib0 col1 (CStr (u ''2024-01-06'')) = Some (days_from_civil 2024 1 6 * NS_PER_DAY)"
    "to_datetime pylib0 col1 (CStr (u ''2024-02-01'')) = Some (days_from_civil 2024 2 1 * NS_PER_DAY)"
    by (code_simp, code_simp, code_simp)
  have f: "\<forall>x\<in>set [- 80, - 50, - 30, 40, 120, 150, 200]. fl pylib0 x = x"
    by code_simp
  from scenario [OF d f pylib0_sorts] show ?thesis by simp
qed

section \<open>Theorems: sums\<close>












section \<open>Theorems: time buckets\<close>

lemma times_Inr:
  "times p = Inr ts \<Longrightarrow>
     \<exists>i. col_positions (df p) (datetime_col p) = [i] \<and>
         ts = map (\<lambda>r. time_of (cell_at r i)) (rows (df p))"
  by (auto simp: times_def the_column_def as_times_def split: list.splits if_splits sum.splits)

lemma fold_min_Min: "fold min xs (x :: int) = Min (set (x # xs))"
  by (rule Min.set_eq_fold[symmetric])

lemma fold_max_Max: "fold max xs (x :: int) = Max (set (x # xs))"
  by (rule Max.set_eq_fold[symmetric])

lemma upto_strict: "sorted_wrt (<) [i..j :: int]"
  by (simp add: strict_sorted_iff)

lemma hd_last_upto: "i \<le> j \<Longrightarrow> hd [i..j] = i \<and> last [i..j] = j"
proof
  assume le: "i \<le> j"
  show "hd [i..j] = i" by (subst upto_rec1[OF le]) simp
  show "last [i..j] = j" by (subst upto_rec2[OF le]) simp
qed

text \<open>
  C3, as the code has it. For every \<open>FinanceParseResult\<close> whose datetime column holds
  timestamps and whose amount column holds numbers, every frequency and every library that
  sorts: \<open>aggregate_finance\<close> returns one bucket for every period from the earliest occupied
  one to the latest occupied one, in strictly ascending order; the first and the last
  bucket hold at least one input row; a bucket between them that holds no row is present,
  with total \<open>0\<close>; and \<open>abs_total\<close> is the absolute value of \<open>total_amount\<close>.
\<close>

theorem aggregate_fills_range:
  assumes t: "times p = Inr ts" and a: "amounts p = Inr s"
    and srt: "\<forall>key rs. mset (sort_values L key rs) = mset rs \<and>
                        sorted (map key (sort_values L key rs))"
  shows "\<exists>bs. aggregate_finance L p f = Inr bs \<and>
     (ts = [] \<longrightarrow> bs = []) \<and>
     (ts \<noteq> [] \<longrightarrow> map period bs = [Min (bucket_of f ` set ts) .. Max (bucket_of f ` set ts)]) \<and>
     sorted_wrt (<) (map period bs) \<and>
     (ts \<noteq> [] \<longrightarrow> period (hd bs) \<in> bucket_of f ` set ts \<and>
                  period (last bs) \<in> bucket_of f ` set ts) \<and>
     (\<forall>b\<in>set bs. abs_total b = \<bar>total_amount b\<bar> \<and>
        (period b \<notin> bucket_of f ` set ts \<longrightarrow> total_amount b = 0))"
proof (cases "ts = []")
  case True
  with t a show ?thesis by (simp add: aggregate_finance_def Let_def)
next
  case False
  from times_Inr[OF t] obtain i where i: "col_positions (df p) (datetime_col p) = [i]"
    and ts: "ts = map (\<lambda>r. time_of (cell_at r i)) (rows (df p))" by blast
  define amt where "amt = hd (col_positions (df p) (amount_col p))"
  define sorted_rows where
    "sorted_rows = sort_values L (\<lambda>r. of_int (time_of (cell_at r i))) (rows (df p))"
  define tot where "tot = (\<lambda>k. group_sum (fl L) (map (\<lambda>r. num_of (cell_at r amt))
        (filter (\<lambda>r. bucket_of f (time_of (cell_at r i)) = k) sorted_rows)))"
  define ks where "ks = map (bucket_of f) ts"
  define lo where "lo = Min (bucket_of f ` set ts)"
  define hi where "hi = Max (bucket_of f ` set ts)"
  define bs where "bs = map (\<lambda>k. \<lparr>period = k, total_amount = tot k, abs_total = \<bar>tot k\<bar>\<rparr>) [lo..hi]"
  have ksne: "ks \<noteq> []" using False by (simp add: ks_def)
  have set_ks: "set ks = bucket_of f ` set ts" by (simp add: ks_def)
  obtain x xs where kx: "ks = x # xs" using ksne by (cases ks) auto
  have lo: "fold min (tl ks) (hd ks) = lo"
    unfolding kx list.sel fold_min_Min lo_def set_ks[symmetric] kx ..
  have hi: "fold max (tl ks) (hd ks) = hi"
    unfolding kx list.sel fold_max_Max hi_def set_ks[symmetric] kx ..
  have unf: "aggregate_finance L p f =
      (if ks = [] then Inr []
       else Inr (map (\<lambda>k. \<lparr>period = k, total_amount = tot k, abs_total = \<bar>tot k\<bar>\<rparr>)
              [fold min (tl ks) (hd ks) .. fold max (tl ks) (hd ks)]))"
    unfolding aggregate_finance_def t a i Let_def tot_def sorted_rows_def amt_def ks_def
    by (simp only: sum.case list.sel)
  have agg: "aggregate_finance L p f = Inr bs"
    unfolding unf lo hi bs_def using ksne by (simp only: if_False)
  have fin: "finite (bucket_of f ` set ts)" "bucket_of f ` set ts \<noteq> {}" using False by simp_all
  have lo_in: "lo \<in> bucket_of f ` set ts" unfolding lo_def using fin by (rule Min_in)
  have hi_in: "hi \<in> bucket_of f ` set ts" unfolding hi_def using fin by (rule Max_in)
  have le: "lo \<le> hi" unfolding lo_def hi_def using fin by (simp add: Min_le_iff)
  have per: "map period bs = [lo..hi]" by (simp add: bs_def comp_def)
  have ne: "bs \<noteq> []" using le by (simp add: bs_def)
  have hl: "period (hd bs) = lo" "period (last bs) = hi"
    using ne per hd_last_upto[OF le] by (metis hd_map, metis last_map)
  have set_sorted: "set sorted_rows = set (rows (df p))"
    using srt unfolding sorted_rows_def by (metis mset_eq_setD)
  have empty: "tot k = 0" if "k \<notin> bucket_of f ` set ts" for k
  proof -
    have "filter (\<lambda>r. bucket_of f (time_of (cell_at r i)) = k) sorted_rows = []"
      using that set_sorted by (auto simp: filter_empty_conv ts)
    then show ?thesis by (simp add: tot_def group_sum_def)
  qed
  have each: "\<forall>b\<in>set bs. abs_total b = \<bar>total_amount b\<bar> \<and>
        (period b \<notin> bucket_of f ` set ts \<longrightarrow> total_amount b = 0)"
    using empty by (auto simp: bs_def)
  from agg False per hl lo_in hi_in each show ?thesis
    by (auto simp: upto_strict lo_def hi_def)
qed

lemma times2:
  "times parsed2 = Inr [1704412800000000000, 1705708800000000000, 1709337600000000000]"
  "amounts parsed2 = Inr [10, 5, 7]"
  by (code_simp, code_simp)

theorem aggregate_fills_range_witness:
  "\<exists>bs. aggregate_finance pylib0 parsed2 M = Inr bs \<and>
      sorted_wrt (<) (map period bs) \<and>
      (\<forall>b\<in>set bs. period b \<notin> bucket_of M `
           set [1704412800000000000, 1705708800000000000, 1709337600000000000] \<longrightarrow>
         total_amount b = 0)"
  using aggregate_fills_range [OF times2 pylib0_sorts, of M] by blast

text \<open>
  C3, as the claim states it, fails: with rows in January and in March 2024 only, the
  monthly aggregate has a bucket for February (index 24289), which holds no input row.
\<close>

theorem gap_filled_counterexample:
  "parse_financial_tables pylib0 [grid2] = Inr (Some parsed2) \<and>
   aggregate_finance pylib0 parsed2 M =
     Inr [\<lparr>period = 24288, total_amount = 15, abs_total = 15\<rparr>,
          \<lparr>period = 24289, total_amount = 0, abs_total = 0\<rparr>,
          \<lparr>period = 24290, total_amount = 7, abs_total = 7\<rparr>] \<and>
   times parsed2 = Inr [1704412800000000000, 1705708800000000000, 1709337600000000000] \<and>
   map (bucket_of M) [1704412800000000000, 1705708800000000000, 1709337600000000000] =
     [24288, 24288, 24290]"
  by code_simp

section \<open>Theorems: the largest transactions\<close>

















text \<open>
  With it, the two rows of amount \<open>5\<close> of \<open>parsed4\<close> come out with the earlier date first.
\<close>

lemma top_ties_in_date_order: "top_transactions pylib0 parsed4 2 =
     Inr ([[CTime (days_from_civil 2024 1 1 * NS_PER_DAY), CNum 5],
           [CTime (days_from_civil 2024 1 2 * NS_PER_DAY), CNum 5]],
          [[CTime (days_from_civil 2024 1 3 * NS_PER_DAY), CNum (- 1)]])"
  by code_simp


end
